theory Spec2Isabelle
  imports Complex_Main
begin

section \<open>Python values used by the gamma chart\<close>

text \<open>
  The program is a single Python module. Its pixel-map builders and the parser in
  \<open>Xpm.create_photo_image\<close> work on strings and lists of strings, the level computation in
  \<open>GammaChart.__init__\<close> on floats. Strings are lists of characters with code points below
  256. Floats are modelled by real numbers: division, \<open>pow\<close> and multiplication are the exact
  operations, with the exceptions Python raises written out. The model is meant for the
  gammas that the program passes, 1.0, 1.8, 2.0 and 2.2. For an arbitrary double the result
  of the interpreter can differ from the exact one by a unit, where the exact product lies
  within the rounding error of a half, and the infinities and NaN have no counterpart here.
\<close>

datatype py_error = ZeroDivisionError | ValueError | IndexError | KeyError

subsection \<open>Strings\<close>

text \<open>\<open>str.isspace\<close> on one character, for code points below 256.\<close>

definition is_space :: "char \<Rightarrow> bool" where
  "is_space c = (let n = (of_char c :: nat) in
     (9 \<le> n \<and> n \<le> 13) \<or> (28 \<le> n \<and> n \<le> 32) \<or> n = 133 \<or> n = 160)"

text \<open>\<open>s.strip()\<close>: leading and trailing whitespace removed.\<close>

definition py_strip :: "string \<Rightarrow> string" where
  "py_strip s = rev (dropWhile is_space (rev (dropWhile is_space s)))"

text \<open>
  \<open>s.split()\<close>: the maximal runs of non-whitespace characters, in order. The first argument
  of \<open>split_from\<close> is the run read so far.
\<close>

fun split_from :: "string \<Rightarrow> string \<Rightarrow> string list" where
  "split_from cur [] = (if cur = [] then [] else [cur])"
| "split_from cur (c # cs) =
     (if is_space c then (if cur = [] then split_from [] cs else cur # split_from [] cs)
      else split_from (cur @ [c]) cs)"

definition py_split :: "string \<Rightarrow> string list" where
  "py_split s = split_from [] s"

text \<open>\<open>s * n\<close>: the string repeated.\<close>

definition str_times :: "string \<Rightarrow> nat \<Rightarrow> string" where
  "str_times s n = concat (replicate n s)"

text \<open>\<open>xs[i]\<close>: a negative index counts from the end, an index out of range raises.\<close>

definition py_index :: "'a list \<Rightarrow> int \<Rightarrow> py_error + 'a" where
  "py_index xs i =
     (if 0 \<le> i \<and> i < int (length xs) then Inr (xs ! nat i)
      else if i < 0 \<and> - int (length xs) \<le> i then Inr (xs ! nat (int (length xs) + i))
      else Inl IndexError)"

text \<open>\<open>xs[a:b]\<close>: both bounds are clipped to the list, so a slice never raises.\<close>

definition clip_index :: "nat \<Rightarrow> int \<Rightarrow> nat" where
  "clip_index n i = (let j = (if i < 0 then int n + i else i)
     in if j < 0 then 0 else if int n < j then n else nat j)"

definition py_slice :: "'a list \<Rightarrow> int \<Rightarrow> int \<Rightarrow> 'a list" where
  "py_slice xs a b = (let lo = clip_index (length xs) a; hi = clip_index (length xs) b
     in take (hi - lo) (drop lo xs))"

text \<open>\<open>range(n)\<close>: empty when \<open>n\<close> is not positive.\<close>

definition py_range :: "int \<Rightarrow> int list" where
  "py_range n = map int [0..<nat n]"

subsection \<open>Integers and their text\<close>

fun dec_digits :: "nat \<Rightarrow> string" where
  "dec_digits n = (if n < 10 then [''0123456789'' ! n]
     else dec_digits (n div 10) @ [''0123456789'' ! (n mod 10)])"

fun hex_digits :: "nat \<Rightarrow> string" where
  "hex_digits n = (if n < 16 then [''0123456789abcdef'' ! n]
     else hex_digits (n div 16) @ [''0123456789abcdef'' ! (n mod 16)])"

declare dec_digits.simps [simp del]
declare hex_digits.simps [simp del]

text \<open>\<open>f"{n}"\<close> for an integer.\<close>

definition py_str :: "int \<Rightarrow> string" where
  "py_str n = (if n < 0 then ''-'' @ dec_digits (nat (- n)) else dec_digits (nat n))"

text \<open>
  \<open>f"{n:02x}"\<close>: lowercase hexadecimal, padded with zeros to a width of at least two; the
  sign of a negative number counts for the width.
\<close>

definition format_02x :: "int \<Rightarrow> string" where
  "format_02x n =
     (if n < 0 then ''-'' @ hex_digits (nat (- n))
      else replicate (2 - length (hex_digits (nat n))) CHR ''0'' @ hex_digits (nat n))"

text \<open>
  \<open>int(s)\<close> on a string. Whitespace around the number is skipped, where whitespace is what C
  calls so below 128 (tab to carriage return, and the space) and the Unicode spaces above:
  the separators 28 to 31 are not skipped. Then come an optional sign and decimal digits,
  where single underscores may stand between digits. A number of more than 4300 digits is
  refused (the default limit of the interpreter). Anything else is a \<open>ValueError\<close> too.
\<close>

definition int_space :: "char \<Rightarrow> bool" where
  "int_space c = (let n = (of_char c :: nat) in (9 \<le> n \<and> n \<le> 13) \<or> n = 32 \<or> n = 133 \<or> n = 160)"

definition int_strip :: "string \<Rightarrow> string" where
  "int_strip s = rev (dropWhile int_space (rev (dropWhile int_space s)))"

definition digit_val :: "char \<Rightarrow> nat option" where
  "digit_val c = (let n = (of_char c :: nat) in if 48 \<le> n \<and> n \<le> 57 then Some (n - 48) else None)"

fun parse_digits :: "bool \<Rightarrow> nat \<Rightarrow> string \<Rightarrow> nat option" where
  "parse_digits after_digit acc [] = (if after_digit then Some acc else None)"
| "parse_digits after_digit acc (c # cs) =
     (if c = CHR ''_'' then (if after_digit then parse_digits False acc cs else None)
      else case digit_val c of
             None \<Rightarrow> None
           | Some d \<Rightarrow> parse_digits True (10 * acc + d) cs)"

definition int_digits :: "string \<Rightarrow> py_error + nat" where
  "int_digits ds =
     (case parse_digits False 0 ds of
        None \<Rightarrow> Inl ValueError
      | Some n \<Rightarrow>
          if 4300 < length (filter (\<lambda>c. c \<noteq> CHR ''_'') ds) then Inl ValueError else Inr n)"

definition py_int :: "string \<Rightarrow> py_error + int" where
  "py_int s =
     (case int_strip s of
        CHR ''-'' # ds \<Rightarrow> (case int_digits ds of Inl e \<Rightarrow> Inl e | Inr n \<Rightarrow> Inr (- int n))
      | CHR ''+'' # ds \<Rightarrow> (case int_digits ds of Inl e \<Rightarrow> Inl e | Inr n \<Rightarrow> Inr (int n))
      | ds \<Rightarrow> (case int_digits ds of Inl e \<Rightarrow> Inl e | Inr n \<Rightarrow> Inr (int n)))"

section \<open>Pixel maps\<close>

text \<open>\<open>Xpm.size\<close>, the class attribute: the side of the basic pattern.\<close>

definition Xpm_size :: nat where
  "Xpm_size = 16"

text \<open>
  \<open>SingleColorXpm.__init__\<close>: the header, one colour line whose symbol is the space, and
  \<open>Xpm.size * 2\<close> rows of \<open>Xpm.size * 2\<close> spaces. The value is the list \<open>_data\<close>.
\<close>

definition SingleColorXpm :: "string \<Rightarrow> string \<Rightarrow> string \<Rightarrow> string list" where
  "SingleColorXpm red green blue =
     [py_str (int (Xpm_size * 2)) @ '' '' @ py_str (int (Xpm_size * 2)) @ '' 1 1'',
      ''  c #'' @ red @ green @ blue]
     @ replicate (Xpm_size * 2) (str_times '' '' (Xpm_size * 2))"

text \<open>
  \<open>AlternateXpm.__init__\<close>: the header, two colour lines (the space for the first colour,
  the dot for the second), and \<open>Xpm.size\<close> times the two rows \<open>". " * Xpm.size\<close> and
  \<open>" ." * Xpm.size\<close>.
\<close>

definition AlternateXpm ::
  "string \<Rightarrow> string \<Rightarrow> string \<Rightarrow> string \<Rightarrow> string \<Rightarrow> string \<Rightarrow> string list" where
  "AlternateXpm red1 green1 blue1 red2 green2 blue2 =
     [py_str (int (Xpm_size * 2)) @ '' '' @ py_str (int (Xpm_size * 2)) @ '' 2 1'',
      ''  c #'' @ red1 @ green1 @ blue1,
      ''. c #'' @ red2 @ green2 @ blue2]
     @ concat (replicate Xpm_size [str_times ''. '' Xpm_size, str_times '' .'' Xpm_size])"

subsection \<open>Xpm.create_photo_image\<close>

text \<open>
  A \<open>tkinter.PhotoImage\<close>: its master, its size, and the calls of \<open>put\<close> made on it, each
  with its data string and its target position.
\<close>

record 'p photo_image =
  img_master :: 'p
  img_width :: int
  img_height :: int
  img_puts :: "(string \<times> int \<times> int) list"

text \<open>
  The header line: \<open>width, height, num_colors, chars_per_pixel = map(int, header)\<close>. A field
  that is no integer, and a number of fields other than four, raise \<open>ValueError\<close>.
\<close>

fun int_fields :: "string list \<Rightarrow> py_error + int list" where
  "int_fields [] = Inr []"
| "int_fields (f # fs) =
     (case py_int f of
        Inl e \<Rightarrow> Inl e
      | Inr n \<Rightarrow> (case int_fields fs of Inl e \<Rightarrow> Inl e | Inr ns \<Rightarrow> Inr (n # ns)))"

definition parse_header :: "string list \<Rightarrow> py_error + (int \<times> int \<times> int \<times> int)" where
  "parse_header xpm_data =
     (case py_index xpm_data 0 of
        Inl e \<Rightarrow> Inl e
      | Inr line \<Rightarrow>
          (case int_fields (py_split (py_strip line)) of
             Inl e \<Rightarrow> Inl e
           | Inr [width, height, num_colors, chars_per_pixel] \<Rightarrow>
               Inr (width, height, num_colors, chars_per_pixel)
           | Inr _ \<Rightarrow> Inl ValueError))"

text \<open>
  The colour-map loop: for each \<open>i\<close> the symbol is the first character of line \<open>i + 1\<close>, the
  colour its last field. The dictionary is keyed by strings.
\<close>

fun color_map_loop ::
  "string list \<Rightarrow> int list \<Rightarrow> (string \<rightharpoonup> string) \<Rightarrow> py_error + (string \<rightharpoonup> string)" where
  "color_map_loop xpm_data [] color_map = Inr color_map"
| "color_map_loop xpm_data (i # is) color_map =
     (case py_index xpm_data (i + 1) of
        Inl e \<Rightarrow> Inl e
      | Inr line \<Rightarrow>
          (case py_index line 0 of
             Inl e \<Rightarrow> Inl e
           | Inr char \<Rightarrow>
               (case py_index (py_split (py_strip line)) (- 1) of
                  Inl e \<Rightarrow> Inl e
                | Inr color \<Rightarrow> color_map_loop xpm_data is (color_map([char] \<mapsto> color)))))"

text \<open>
  The inner pixel loop: the symbol of column \<open>x\<close> is a slice of the pixel row, and a symbol
  missing from the colour map raises \<open>KeyError\<close>.
\<close>

fun row_loop ::
  "(string \<rightharpoonup> string) \<Rightarrow> string \<Rightarrow> int \<Rightarrow> int list \<Rightarrow> string \<Rightarrow> py_error + string" where
  "row_loop color_map pixel_row chars_per_pixel [] row_str = Inr row_str"
| "row_loop color_map pixel_row chars_per_pixel (x # xs) row_str =
     (case color_map (py_slice pixel_row (x * chars_per_pixel) ((x + 1) * chars_per_pixel)) of
        None \<Rightarrow> Inl KeyError
      | Some color \<Rightarrow>
          row_loop color_map pixel_row chars_per_pixel xs (row_str @ color @ '' ''))"

text \<open>The outer loop: one \<open>put\<close> per row, at \<open>(0, y)\<close>.\<close>

fun image_loop ::
  "string list \<Rightarrow> (string \<rightharpoonup> string) \<Rightarrow> int \<Rightarrow> int \<Rightarrow> int \<Rightarrow> int list \<Rightarrow>
     'p photo_image \<Rightarrow> py_error + 'p photo_image" where
  "image_loop xpm_data color_map width num_colors chars_per_pixel [] img = Inr img"
| "image_loop xpm_data color_map width num_colors chars_per_pixel (y # ys) img =
     (case py_index xpm_data (y + 1 + num_colors) of
        Inl e \<Rightarrow> Inl e
      | Inr pixel_row \<Rightarrow>
          (case row_loop color_map pixel_row chars_per_pixel (py_range width) [] of
             Inl e \<Rightarrow> Inl e
           | Inr row_str \<Rightarrow>
               image_loop xpm_data color_map width num_colors chars_per_pixel ys
                 (img\<lparr>img_puts := img_puts img @ [(''{'' @ py_strip row_str @ ''}'', 0, y)]\<rparr>)))"

definition create_photo_image :: "'p \<Rightarrow> string list \<Rightarrow> py_error + 'p photo_image" where
  "create_photo_image parent xpm_data =
     (case parse_header xpm_data of
        Inl e \<Rightarrow> Inl e
      | Inr (width, height, num_colors, chars_per_pixel) \<Rightarrow>
          (case color_map_loop xpm_data (py_range num_colors) Map.empty of
             Inl e \<Rightarrow> Inl e
           | Inr color_map \<Rightarrow>
               image_loop xpm_data color_map width num_colors chars_per_pixel (py_range height)
                 \<lparr>img_master = parent, img_width = width, img_height = height, img_puts = []\<rparr>))"


subsection \<open>Reading a pixel map\<close>

text \<open>
  The symbol table that \<open>create_photo_image\<close> builds from a pixel map, and the symbol it reads
  for the pixel in row \<open>y\<close> and column \<open>x\<close>: the slice of line \<open>y + 1 + num_colors\<close> that the
  inner loop looks up.
\<close>

definition color_table :: "string list \<Rightarrow> py_error + (string \<rightharpoonup> string)" where
  "color_table xpm_data =
     (case parse_header xpm_data of
        Inl e \<Rightarrow> Inl e
      | Inr (width, height, num_colors, chars_per_pixel) \<Rightarrow>
          color_map_loop xpm_data (py_range num_colors) Map.empty)"

definition pixel_symbol :: "string list \<Rightarrow> int \<Rightarrow> int \<Rightarrow> py_error + string" where
  "pixel_symbol xpm_data y x =
     (case parse_header xpm_data of
        Inl e \<Rightarrow> Inl e
      | Inr (width, height, num_colors, chars_per_pixel) \<Rightarrow>
          (case py_index xpm_data (y + 1 + num_colors) of
             Inl e \<Rightarrow> Inl e
           | Inr pixel_row \<Rightarrow>
               Inr (py_slice pixel_row (x * chars_per_pixel) ((x + 1) * chars_per_pixel))))"

text \<open>The symbol declared by colour line \<open>i\<close>, counted from 0: the first character of the line.\<close>

definition table_symbol :: "string list \<Rightarrow> int \<Rightarrow> py_error + string" where
  "table_symbol xpm_data i =
     (case py_index xpm_data (i + 1) of
        Inl e \<Rightarrow> Inl e
      | Inr line \<Rightarrow> (case py_index line 0 of Inl e \<Rightarrow> Inl e | Inr char \<Rightarrow> Inr [char]))"

text \<open>
  The colour of the pixel in row \<open>y\<close> and column \<open>x\<close>: the lookup \<open>color_map[char]\<close> of the
  inner loop.
\<close>

definition pixel_color :: "string list \<Rightarrow> int \<Rightarrow> int \<Rightarrow> py_error + string" where
  "pixel_color xpm_data y x =
     (case color_table xpm_data of
        Inl e \<Rightarrow> Inl e
      | Inr color_map \<Rightarrow>
          (case pixel_symbol xpm_data y x of
             Inl e \<Rightarrow> Inl e
           | Inr char \<Rightarrow> (case color_map char of None \<Rightarrow> Inl KeyError | Some color \<Rightarrow> Inr color)))"

text \<open>
  The invariant of a pixel map: the header parses, the lines after the colour lines are
  \<open>height\<close> rows of \<open>width\<close> pixels each, the symbol table has \<open>num_colors\<close> entries, and every
  pixel of every row has its symbol in the table.
\<close>

definition xpm_consistent :: "string list \<Rightarrow> bool" where
  "xpm_consistent xpm_data =
     (case parse_header xpm_data of
        Inl e \<Rightarrow> False
      | Inr (width, height, num_colors, chars_per_pixel) \<Rightarrow>
          (case color_map_loop xpm_data (py_range num_colors) Map.empty of
             Inl e \<Rightarrow> False
           | Inr color_map \<Rightarrow>
               int (length (drop (nat (1 + num_colors)) xpm_data)) = height \<and>
               (\<forall>row \<in> set (drop (nat (1 + num_colors)) xpm_data).
                  int (length row) = width * chars_per_pixel) \<and>
               int (card (dom color_map)) = num_colors \<and>
               (\<forall>row \<in> set (drop (nat (1 + num_colors)) xpm_data). \<forall>x \<in> set (py_range width).
                  py_slice row (x * chars_per_pixel) ((x + 1) * chars_per_pixel) \<in> dom color_map)))"

section \<open>The gamma chart\<close>

subsection \<open>Corrected levels\<close>

text \<open>\<open>round(x)\<close> on a float: the nearest integer, a tie going to the even one.\<close>

definition py_round :: "real \<Rightarrow> int" where
  "py_round x =
     (let f = \<lfloor>x\<rfloor>; d = x - of_int f
      in if d < 1 / 2 then f else if 1 / 2 < d then f + 1 else if even f then f else f + 1)"

text \<open>
  \<open>pow(level / 255.0, e)\<close> for one of the literal levels, so the base is never negative:
  zero to a negative power raises, anything to the power zero is one. The power itself is
  the exact one, without the rounding of the double.
\<close>

definition level_pow :: "nat \<Rightarrow> real \<Rightarrow> py_error + real" where
  "level_pow level e =
     (let base = real level / 255
      in if base = 0 \<and> e < 0 then Inl ZeroDivisionError
         else if e = 0 then Inr 1
         else if base = 0 then Inr 0
         else Inr (base powr e))"

text \<open>
  \<open>int(round(pow(level / 255.0, 1.0 / gamma) * 255))\<close>: the division by \<open>gamma\<close> is evaluated
  before \<open>pow\<close> is called and raises when \<open>gamma\<close> is zero.
\<close>

definition corrected_level :: "real \<Rightarrow> nat \<Rightarrow> py_error + int" where
  "corrected_level gamma level =
     (if gamma = 0 then Inl ZeroDivisionError
      else case level_pow level (1 / gamma) of
             Inl e \<Rightarrow> Inl e
           | Inr p \<Rightarrow> Inr (py_round (p * 255)))"

definition level_hex :: "real \<Rightarrow> nat \<Rightarrow> py_error + string" where
  "level_hex gamma level =
     (case corrected_level gamma level of Inl e \<Rightarrow> Inl e | Inr n \<Rightarrow> Inr (format_02x n))"

text \<open>The five assignments \<open>v000\<close> to \<open>v100\<close>, in the order of the source.\<close>

definition gamma_levels :: "real \<Rightarrow> py_error + (string \<times> string \<times> string \<times> string \<times> string)" where
  "gamma_levels gamma =
     (case level_hex gamma 0 of Inl e \<Rightarrow> Inl e | Inr v000 \<Rightarrow>
     (case level_hex gamma 63 of Inl e \<Rightarrow> Inl e | Inr v025 \<Rightarrow>
     (case level_hex gamma 127 of Inl e \<Rightarrow> Inl e | Inr v050 \<Rightarrow>
     (case level_hex gamma 191 of Inl e \<Rightarrow> Inl e | Inr v075 \<Rightarrow>
     (case level_hex gamma 255 of Inl e \<Rightarrow> Inl e | Inr v100 \<Rightarrow>
        Inr (v000, v025, v050, v075, v100))))))"

subsection \<open>Tiles\<close>

text \<open>
  The dictionary \<open>images\<close>, in the order of its literal: each key with the pixel map that is
  handed to \<open>create_photo_image\<close>.
\<close>

fun chart_xpms :: "string \<times> string \<times> string \<times> string \<times> string \<Rightarrow> (string \<times> string list) list" where
  "chart_xpms (v000, v025, v050, v075, v100) =
     [(''all_a025'', AlternateXpm v000 v000 v000 v050 v050 v050),
      (''all_a050'', AlternateXpm v000 v000 v000 v100 v100 v100),
      (''all_a075'', AlternateXpm v050 v050 v050 v100 v100 v100),
      (''all_s025'', SingleColorXpm v025 v025 v025),
      (''all_s050'', SingleColorXpm v050 v050 v050),
      (''all_s075'', SingleColorXpm v075 v075 v075),
      (''red_a025'', AlternateXpm v000 v000 v000 v050 v000 v000),
      (''red_a050'', AlternateXpm v000 v000 v000 v100 v000 v000),
      (''red_a075'', AlternateXpm v050 v000 v000 v100 v000 v000),
      (''red_s025'', SingleColorXpm v025 v000 v000),
      (''red_s050'', SingleColorXpm v050 v000 v000),
      (''red_s075'', SingleColorXpm v075 v000 v000),
      (''green_a025'', AlternateXpm v000 v000 v000 v000 v050 v000),
      (''green_a050'', AlternateXpm v000 v000 v000 v000 v100 v000),
      (''green_a075'', AlternateXpm v000 v050 v000 v000 v100 v000),
      (''green_s025'', SingleColorXpm v000 v025 v000),
      (''green_s050'', SingleColorXpm v000 v050 v000),
      (''green_s075'', SingleColorXpm v000 v075 v000),
      (''blue_a025'', AlternateXpm v000 v000 v000 v000 v000 v050),
      (''blue_a050'', AlternateXpm v000 v000 v000 v000 v000 v100),
      (''blue_a075'', AlternateXpm v000 v000 v050 v000 v000 v100),
      (''blue_s025'', SingleColorXpm v000 v000 v025),
      (''blue_s050'', SingleColorXpm v000 v000 v050),
      (''blue_s075'', SingleColorXpm v000 v000 v075)]"

text \<open>
  The entries are evaluated in order; the first \<open>create_photo_image\<close> that raises ends the
  construction. The master of every image is the chart itself.
\<close>

fun create_images ::
  "'w \<Rightarrow> (string \<times> string list) list \<Rightarrow> py_error + (string \<times> 'w photo_image) list" where
  "create_images self [] = Inr []"
| "create_images self ((key, xpm_data) # rest) =
     (case create_photo_image self xpm_data of
        Inl e \<Rightarrow> Inl e
      | Inr img \<Rightarrow>
          (case create_images self rest of
             Inl e \<Rightarrow> Inl e
           | Inr images \<Rightarrow> Inr ((key, img) # images)))"

subsection \<open>Placement\<close>

definition layout :: "(string \<times> int \<times> int) list" where
  "layout = [(''all'', 0, 0), (''red'', 3, 0), (''green'', 6, 0), (''blue'', 9, 0)]"

definition patterns :: "(string \<times> int \<times> int) list" where
  "patterns =
     [(''a025'', 0, 0), (''s025'', 1, 0), (''a025'', 2, 0), (''s025'', 3, 0),
      (''a050'', 4, 0), (''s050'', 5, 0), (''a050'', 6, 0), (''s050'', 7, 0),
      (''a075'', 8, 0), (''s075'', 9, 0), (''a075'', 10, 0), (''s075'', 11, 0),
      (''s025'', 0, 1), (''a025'', 1, 1), (''s025'', 2, 1), (''a025'', 3, 1),
      (''s050'', 4, 1), (''a050'', 5, 1), (''s050'', 6, 1), (''a050'', 7, 1),
      (''s075'', 8, 1), (''a075'', 9, 1), (''s075'', 10, 1), (''a075'', 11, 1),
      (''a025'', 0, 2), (''s025'', 1, 2), (''a025'', 2, 2), (''s025'', 3, 2),
      (''a050'', 4, 2), (''s050'', 5, 2), (''a050'', 6, 2), (''s050'', 7, 2),
      (''a075'', 8, 2), (''s075'', 9, 2), (''a075'', 10, 2), (''s075'', 11, 2)]"

text \<open>An item of the canvas, as \<open>create_image(x, y, image=..., anchor="nw")\<close> makes it.\<close>

record 'w canvas_item =
  item_x :: int
  item_y :: int
  item_image :: "'w photo_image"
  item_anchor :: string

text \<open>
  The inner loop over \<open>patterns\<close>, each entry unpacked as \<open>pattern_name, col, row\<close>, and the
  outer loop over \<open>layout\<close>, each entry unpacked as \<open>color_name, row_offset, col_offset\<close>. A key
  that is not in \<open>images\<close> places nothing.
\<close>

fun place_patterns ::
  "(string \<times> 'w photo_image) list \<Rightarrow> int \<Rightarrow> string \<Rightarrow> int \<Rightarrow> int \<Rightarrow>
     (string \<times> int \<times> int) list \<Rightarrow> 'w canvas_item list \<Rightarrow> 'w canvas_item list" where
  "place_patterns images xpm_side color_name row_offset col_offset [] items = items"
| "place_patterns images xpm_side color_name row_offset col_offset ((pattern_name, col, row) # ps) items =
     (case map_of images (color_name @ ''_'' @ pattern_name) of
        None \<Rightarrow> place_patterns images xpm_side color_name row_offset col_offset ps items
      | Some img \<Rightarrow>
          place_patterns images xpm_side color_name row_offset col_offset ps
            (items @ [\<lparr>item_x = (col + col_offset) * xpm_side,
                       item_y = (row + row_offset) * xpm_side,
                       item_image = img, item_anchor = ''nw''\<rparr>]))"

fun place_layout ::
  "(string \<times> 'w photo_image) list \<Rightarrow> int \<Rightarrow> (string \<times> int \<times> int) list \<Rightarrow>
     'w canvas_item list \<Rightarrow> 'w canvas_item list" where
  "place_layout images xpm_side [] items = items"
| "place_layout images xpm_side ((color_name, row_offset, col_offset) # ls) items =
     place_layout images xpm_side ls
       (place_patterns images xpm_side color_name row_offset col_offset patterns items)"

subsection \<open>GammaChart.__init__\<close>

text \<open>
  The chart after construction: the canvas with its parent and size, the retained list
  \<open>_images\<close>, and the items placed on the canvas, in order.
\<close>

record 'w gamma_chart =
  chart_parent :: 'w
  chart_width :: int
  chart_height :: int
  chart_images :: "'w photo_image list"
  chart_items :: "'w canvas_item list"

definition GammaChart :: "'w \<Rightarrow> 'w \<Rightarrow> real \<Rightarrow> py_error + 'w gamma_chart" where
  "GammaChart self parent gamma =
     (let xpm_side = int (Xpm_size * 2); image_side = xpm_side * 12
      in case gamma_levels gamma of
           Inl e \<Rightarrow> Inl e
         | Inr levels \<Rightarrow>
             (case create_images self (chart_xpms levels) of
                Inl e \<Rightarrow> Inl e
              | Inr images \<Rightarrow>
                  Inr \<lparr>chart_parent = parent, chart_width = image_side, chart_height = image_side,
                       chart_images = map snd images,
                       chart_items = place_layout images xpm_side layout []\<rparr>))"

subsection \<open>What is observed of a chart\<close>

text \<open>
  The pixels of an image are its size and its \<open>put\<close> calls; the position of an item is the
  pair of its coordinates. The content of a chart is its size, the pixels of the retained
  images, and the position and pixels of every item.
\<close>

definition image_pixels :: "'w photo_image \<Rightarrow> int \<times> int \<times> (string \<times> int \<times> int) list" where
  "image_pixels img = (img_width img, img_height img, img_puts img)"

definition item_position :: "'w canvas_item \<Rightarrow> int \<times> int" where
  "item_position item = (item_x item, item_y item)"

definition chart_content ::
  "'w gamma_chart \<Rightarrow>
     int \<times> int \<times> (int \<times> int \<times> (string \<times> int \<times> int) list) list \<times>
     ((int \<times> int) \<times> (int \<times> int \<times> (string \<times> int \<times> int) list) \<times> string) list" where
  "chart_content chart =
     (chart_width chart, chart_height chart, map image_pixels (chart_images chart),
      map (\<lambda>item. (item_position item, image_pixels (item_image item), item_anchor item))
        (chart_items chart))"

text \<open>The pixel map behind a key of \<open>images\<close>.\<close>

definition tile_xpm ::
  "string \<times> string \<times> string \<times> string \<times> string \<Rightarrow> string \<Rightarrow> string list option" where
  "tile_xpm levels key = map_of (chart_xpms levels) key"

text \<open>
  The three channel values of a colour \<open>#rrggbb\<close>, each read as a hexadecimal number, and the
  relation of a colour to two others of being their mean in every channel, rounded down.
\<close>

definition hex_val :: "string \<Rightarrow> nat" where
  "hex_val s = foldl (\<lambda>acc c. 16 * acc + length (takeWhile (\<lambda>d. d \<noteq> c) ''0123456789abcdef'')) 0 s"

definition channel_values :: "string \<Rightarrow> nat list" where
  "channel_values color =
     (case color of
        [h, r1, r2, g1, g2, b1, b2] \<Rightarrow> [hex_val [r1, r2], hex_val [g1, g2], hex_val [b1, b2]]
      | _ \<Rightarrow> [])"

definition mean_color :: "string \<Rightarrow> string \<Rightarrow> string \<Rightarrow> bool" where
  "mean_color c1 c2 c =
     (length (channel_values c) = 3 \<and>
      channel_values c = map (\<lambda>(a, b). (a + b) div 2) (zip (channel_values c1) (channel_values c2)))"

section \<open>Auxiliary notions of the properties\<close>

text \<open>
  The corrected level of a positive gamma, where nothing is raised:
  \<open>round((level / 255) ^ (1 / gamma) * 255)\<close>, with the rounding of Python.
\<close>

definition spec_corrected :: "real \<Rightarrow> nat \<Rightarrow> int" where
  "spec_corrected gamma level = py_round ((real level / 255) powr (1 / gamma) * 255)"

text \<open>The keys of \<open>images\<close>, in the order of the dictionary.\<close>

definition chart_keys :: "string list" where
  "chart_keys = [''all_a025'', ''all_a050'', ''all_a075'', ''all_s025'', ''all_s050'', ''all_s075'',
     ''red_a025'', ''red_a050'', ''red_a075'', ''red_s025'', ''red_s050'', ''red_s075'',
     ''green_a025'', ''green_a050'', ''green_a075'', ''green_s025'', ''green_s050'', ''green_s075'',
     ''blue_a025'', ''blue_a050'', ''blue_a075'', ''blue_s025'', ''blue_s050'', ''blue_s075'']"

text \<open>The top left corners of the cells of the 12 by 12 grid, row by row, with a step of 32.\<close>

definition grid_positions :: "(int \<times> int) list" where
  "grid_positions = map (\<lambda>k. (int (k mod 12) * 32, int (k div 12) * 32)) [0..<144]"

text \<open>The number of items placed by a construction, or the error it raised.\<close>

definition placement_count :: "py_error + 'w gamma_chart \<Rightarrow> py_error + nat" where
  "placement_count result =
     (case result of Inl e \<Rightarrow> Inl e | Inr chart \<Rightarrow> Inr (length (chart_items chart)))"

text \<open>The colour that the symbol table of a pixel map gives to a symbol.\<close>

definition table_color :: "string list \<Rightarrow> string \<Rightarrow> py_error + string" where
  "table_color xpm_data symbol =
     (case color_table xpm_data of
        Inl e \<Rightarrow> Inl e
      | Inr color_map \<Rightarrow>
          (case color_map symbol of None \<Rightarrow> Inl KeyError | Some color \<Rightarrow> Inr color))"

text \<open>
  The single colour of the tile under one key is the mean of the two colours of the tile under
  another key.
\<close>

definition tile_mean ::
  "string \<times> string \<times> string \<times> string \<times> string \<Rightarrow> string \<Rightarrow> string \<Rightarrow> bool" where
  "tile_mean levels two_tone single_tone =
     (case (tile_xpm levels two_tone, tile_xpm levels single_tone) of
        (Some a, Some s) \<Rightarrow>
          (case (table_color a '' '', table_color a ''.'', table_color s '' '') of
             (Inr c1, Inr c2, Inr c) \<Rightarrow> mean_color c1 c2 c
           | _ \<Rightarrow> False)
      | _ \<Rightarrow> False)"

section \<open>Properties\<close>

subsection \<open>The Python operations on the data of the builders\<close>

lemma py_str_32: "py_str (int (Xpm_size * 2)) = ''32''"
  by (simp add: py_str_def Xpm_size_def dec_digits.simps)

lemma single_data: "SingleColorXpm r g b =
  [''32 32 1 1'', ''  c #'' @ r @ g @ b] @ replicate 32 (replicate 32 CHR '' '')"
  unfolding SingleColorXpm_def py_str_32 by (simp add: Xpm_size_def str_times_def)

lemma alternate_data: "AlternateXpm r g b r' g' b' =
  [''32 32 2 1'', ''  c #'' @ r @ g @ b, ''. c #'' @ r' @ g' @ b']
  @ concat (replicate 16 [concat (replicate 16 ''. ''), concat (replicate 16 '' .'')])"
  unfolding AlternateXpm_def py_str_32 by (simp add: Xpm_size_def str_times_def)

lemma py_index_0: "py_index (x # xs) 0 = Inr x"
  by (simp add: py_index_def)

lemma py_index_nat: "i < length xs \<Longrightarrow> py_index xs (int i) = Inr (xs ! i)"
  by (simp add: py_index_def)

lemma py_index_last: "xs \<noteq> [] \<Longrightarrow> py_index xs (- 1) = Inr (last xs)"
proof -
  assume ne: "xs \<noteq> []"
  then have "nat (int (length xs) + - 1) = length xs - 1" by (cases xs) simp_all
  moreover from ne have "Suc 0 \<le> length xs" by (cases xs) simp_all
  ultimately show ?thesis using ne by (simp add: py_index_def last_conv_nth)
qed

lemma parse_header_single: "parse_header (SingleColorXpm r g b) = Inr (32, 32, 1, 1)"
  by (simp add: parse_header_def single_data py_index_0 py_strip_def
      py_split_def is_space_def py_int_def digit_val_def
      int_strip_def int_space_def int_digits_def)

lemma parse_header_alternate: "parse_header (AlternateXpm r g b r' g' b') = Inr (32, 32, 2, 1)"
  by (simp add: parse_header_def alternate_data py_index_0 py_strip_def
      py_split_def is_space_def py_int_def digit_val_def
      int_strip_def int_space_def int_digits_def)

lemma split_from_nonempty:
  "cur \<noteq> [] \<or> (\<exists>c\<in>set s. \<not> is_space c) \<Longrightarrow> split_from cur s \<noteq> []"
  by (induction s arbitrary: cur) auto

lemma dropWhile_keeps: "x \<in> set s \<Longrightarrow> \<not> P x \<Longrightarrow> x \<in> set (dropWhile P s)"
  by (induction s) auto

lemma py_strip_keeps: "x \<in> set s \<Longrightarrow> \<not> is_space x \<Longrightarrow> x \<in> set (py_strip s)"
  by (simp add: py_strip_def dropWhile_keeps)

lemma py_split_color_line_nonempty: "py_split (py_strip (a # b # c # d # CHR ''#'' # t)) \<noteq> []"
proof -
  have "CHR ''#'' \<in> set (py_strip (a # b # c # d # CHR ''#'' # t))"
    by (rule py_strip_keeps) (simp_all add: is_space_def)
  moreover have "\<not> is_space CHR ''#''" by (simp add: is_space_def)
  ultimately show ?thesis unfolding py_split_def by (intro split_from_nonempty) blast
qed

lemma split_from_no_space:
  "\<forall>c\<in>set t. \<not> is_space c \<Longrightarrow> split_from cur t = (if cur @ t = [] then [] else [cur @ t])"
  by (induction t arbitrary: cur) auto

lemma py_strip_id: "s \<noteq> [] \<Longrightarrow> \<not> is_space (hd s) \<Longrightarrow> \<not> is_space (last s) \<Longrightarrow> py_strip s = s"
proof -
  assume a: "s \<noteq> []" "\<not> is_space (hd s)" "\<not> is_space (last s)"
  then have 1: "dropWhile is_space s = s" by (cases s) auto
  from a have "dropWhile is_space (rev s) = rev s"
    by (cases s rule: rev_cases) auto
  with 1 show ?thesis by (simp add: py_strip_def)
qed

lemma py_slice_one:
  assumes "i < length row"
  shows "py_slice row (int i * 1) ((int i + 1) * 1) = [row ! i]"
proof -
  have lo: "clip_index (length row) (int i) = i"
    using assms by (simp add: clip_index_def)
  have "clip_index (length row) (int (Suc i)) = Suc i"
    using assms by (simp add: clip_index_def del: of_nat_Suc)
  then have hi: "clip_index (length row) (int i + 1) = Suc i"
    by (simp add: add.commute)
  have "take 1 (drop i row) = [row ! i]"
    using assms by (simp add: take_Suc hd_drop_conv_nth)
  then show ?thesis by (simp add: py_slice_def lo hi)
qed

subsection \<open>The loops of create_photo_image\<close>

lemma row_loop_closed:
  "\<forall>x\<in>set xs. cm (py_slice row (x * cpp) ((x + 1) * cpp)) = Some (f x) \<Longrightarrow>
   row_loop cm row cpp xs acc = Inr (acc @ concat (map (\<lambda>x. f x @ '' '') xs))"
  by (induction xs arbitrary: acc) auto

lemma image_loop_closed:
  "\<forall>y\<in>set ys. py_index d (y + 1 + n) = Inr (rowf y) \<and>
       row_loop cm (rowf y) cpp (py_range w) [] = Inr (strf y) \<Longrightarrow>
   image_loop d cm w n cpp ys img =
     Inr (img\<lparr>img_puts := img_puts img @ map (\<lambda>y. (''{'' @ py_strip (strf y) @ ''}'', 0, y)) ys\<rparr>)"
  by (induction ys arbitrary: img) auto

lemma nth_concat_pairs:
  "i < 2 * n \<Longrightarrow> concat (replicate n [a, b]) ! i = (if even i then a else b)"
proof (induction n arbitrary: i)
  case 0
  then show ?case by simp
next
  case (Suc n)
  show ?case
  proof (cases i)
    case 0
    then show ?thesis by simp
  next
    case (Suc j)
    note i = this
    show ?thesis
    proof (cases j)
      case 0
      with i show ?thesis by simp
    next
      case (Suc k)
      with i Suc.prems have "k < 2 * n" by simp
      from Suc.IH[OF this] i Suc show ?thesis by simp
    qed
  qed
qed

lemma length_concat_pairs: "length (concat (replicate n [a, b])) = 2 * n"
  by (induction n) auto

lemma in_py_rangeE:
  assumes "x \<in> set (py_range n)"
  obtains i where "x = int i" "i < nat n"
  using assms by (auto simp: py_range_def)

lemma color_map_loop_step:
  assumes "py_index d (i + 1) = Inr line" "line \<noteq> []" "py_split (py_strip line) \<noteq> []"
  shows "color_map_loop d (i # js) cm =
           color_map_loop d js (cm([hd line] \<mapsto> last (py_split (py_strip line))))"
proof -
  from assms(2) have "py_index line 0 = Inr (hd line)"
    by (cases line) (simp_all add: py_index_0)
  with assms(1) py_index_last[OF assms(3)] show ?thesis by simp
qed

lemma color_line_split: "py_split (py_strip (a # b # ''c #'' @ t)) \<noteq> []"
  using py_split_color_line_nonempty[of a b "CHR ''c''" "CHR '' ''" t] by simp

lemma single_color_map:
  "color_map_loop (SingleColorXpm r g b) (py_range 1) Map.empty =
     Inr ['' '' \<mapsto> last (py_split (py_strip (''  c #'' @ r @ g @ b)))]"
proof -
  define line where "line = ''  c #'' @ r @ g @ b"
  have ne: "py_split (py_strip line) \<noteq> []" "line \<noteq> []" "hd line = CHR '' ''"
    using color_line_split[of "CHR '' ''" "CHR '' ''" "r @ g @ b"] by (simp_all add: line_def)
  have r1: "py_range 1 = [0]" by (simp add: py_range_def)
  have l1: "py_index (SingleColorXpm r g b) (0 + 1) = Inr line"
    using py_index_nat[of 1 "SingleColorXpm r g b"] by (simp add: single_data line_def)
  show ?thesis
    unfolding r1 color_map_loop_step[OF l1 ne(2) ne(1)] line_def[symmetric]
    by (simp add: ne(3))
qed

lemma alternate_color_map:
  "color_map_loop (AlternateXpm r g b r' g' b') (py_range 2) Map.empty =
     Inr ['' '' \<mapsto> last (py_split (py_strip (''  c #'' @ r @ g @ b))),
          ''.'' \<mapsto> last (py_split (py_strip (''. c #'' @ r' @ g' @ b')))]"
proof -
  define line1 where "line1 = ''  c #'' @ r @ g @ b"
  define line2 where "line2 = ''. c #'' @ r' @ g' @ b'"
  have ne1: "py_split (py_strip line1) \<noteq> []" "line1 \<noteq> []" "hd line1 = CHR '' ''"
    using color_line_split[of "CHR '' ''" "CHR '' ''" "r @ g @ b"] by (simp_all add: line1_def)
  have ne2: "py_split (py_strip line2) \<noteq> []" "line2 \<noteq> []" "hd line2 = CHR ''.''"
    using color_line_split[of "CHR ''.''" "CHR '' ''" "r' @ g' @ b'"] by (simp_all add: line2_def)
  have r2: "py_range 2 = [0, 1]" by (simp add: py_range_def upt_rec numeral_2_eq_2)
  have l1: "py_index (AlternateXpm r g b r' g' b') (0 + 1) = Inr line1"
    using py_index_nat[of 1 "AlternateXpm r g b r' g' b'"] by (simp add: alternate_data line1_def)
  have l2: "py_index (AlternateXpm r g b r' g' b') (1 + 1) = Inr line2"
    using py_index_nat[of 2 "AlternateXpm r g b r' g' b'"] by (simp add: alternate_data line2_def)
  show ?thesis
    unfolding r2 color_map_loop_step[OF l1 ne1(2) ne1(1)] color_map_loop_step[OF l2 ne2(2) ne2(1)]
      line1_def[symmetric] line2_def[symmetric]
    by (simp add: ne1(3) ne2(3))
qed

lemma single_row_index:
  "i < 32 \<Longrightarrow> py_index (SingleColorXpm r g b) (int i + 1 + 1) = Inr (replicate 32 CHR '' '')"
proof -
  assume i: "i < 32"
  have e1: "int i + 1 + 1 = int (i + 2)" by simp
  have e2: "py_index (SingleColorXpm r g b) (int (i + 2)) = Inr (SingleColorXpm r g b ! (i + 2))"
    using i by (intro py_index_nat) (simp add: single_data)
  have e3: "SingleColorXpm r g b ! (i + 2) = replicate 32 CHR '' ''"
    using i by (simp add: single_data)
  show ?thesis unfolding e1 e2 e3 ..
qed

lemma alternate_row_index:
  "i < 32 \<Longrightarrow> py_index (AlternateXpm r g b r' g' b') (int i + 1 + 2) =
     Inr (if even i then concat (replicate 16 ''. '') else concat (replicate 16 '' .''))"
proof -
  assume i: "i < 32"
  let ?rows = "concat (replicate 16 [concat (replicate 16 ''. ''), concat (replicate 16 '' .'')])"
  have len: "length ?rows = 32" by (simp only: length_concat_pairs)
  have e1: "int i + 1 + 2 = int (i + 3)" by simp
  have e2: "py_index (AlternateXpm r g b r' g' b') (int (i + 3)) =
      Inr (AlternateXpm r g b r' g' b' ! (i + 3))"
    using i len by (intro py_index_nat) (simp only: alternate_data length_append, simp)
  have e3: "AlternateXpm r g b r' g' b' ! (i + 3) = ?rows ! i"
    by (simp add: alternate_data nth_append)
  have e4: "?rows ! i = (if even i then concat (replicate 16 ''. '') else concat (replicate 16 '' .''))"
    using i by (intro nth_concat_pairs) simp
  show ?thesis unfolding e1 e2 e3 e4 ..
qed

lemma single_row_loop:
  "row_loop ['' '' \<mapsto> col] (replicate 32 CHR '' '') 1 (py_range 32) [] =
     Inr (concat (map (\<lambda>x. col @ '' '') (py_range 32)))"
proof -
  have "\<forall>x\<in>set (py_range 32).
      ['' '' \<mapsto> col] (py_slice (replicate 32 CHR '' '') (x * 1) ((x + 1) * 1)) = Some col"
  proof
    fix x assume "x \<in> set (py_range 32)"
    then obtain i where i: "x = int i" "i < 32" by (auto elim: in_py_rangeE)
    then have "py_slice (replicate 32 CHR '' '') (x * 1) ((x + 1) * 1) = [replicate 32 CHR '' '' ! i]"
      using py_slice_one[of i "replicate 32 CHR '' ''"] by simp
    with i show "['' '' \<mapsto> col] (py_slice (replicate 32 CHR '' '') (x * 1) ((x + 1) * 1)) = Some col"
      by simp
  qed
  from row_loop_closed[OF this, of "[]"] show ?thesis by (simp only: append_Nil)
qed

lemma single_image:
  "create_photo_image p (SingleColorXpm r g b) =
     Inr \<lparr>img_master = p, img_width = 32, img_height = 32,
          img_puts = map (\<lambda>y. (''{'' @ py_strip (concat (map
            (\<lambda>x. last (py_split (py_strip (''  c #'' @ r @ g @ b))) @ '' '') (py_range 32))) @ ''}'',
            0, y)) (py_range 32)\<rparr>"
proof -
  define col where "col = last (py_split (py_strip (''  c #'' @ r @ g @ b)))"
  have "\<forall>y\<in>set (py_range 32).
      py_index (SingleColorXpm r g b) (y + 1 + 1) = Inr (replicate 32 CHR '' '') \<and>
      row_loop ['' '' \<mapsto> col] (replicate 32 CHR '' '') 1 (py_range 32) [] =
        Inr (concat (map (\<lambda>x. col @ '' '') (py_range 32)))"
  proof
    fix y assume "y \<in> set (py_range 32)"
    then obtain i where "y = int i" "i < 32" by (auto elim: in_py_rangeE)
    then show "py_index (SingleColorXpm r g b) (y + 1 + 1) = Inr (replicate 32 CHR '' '') \<and>
      row_loop ['' '' \<mapsto> col] (replicate 32 CHR '' '') 1 (py_range 32) [] =
        Inr (concat (map (\<lambda>x. col @ '' '') (py_range 32)))"
      using single_row_index[of i r g b] single_row_loop[of col] by (simp only: simp_thms)
  qed
  from image_loop_closed[OF this,
      of "\<lparr>img_master = p, img_width = 32, img_height = 32, img_puts = []\<rparr>"]
  show ?thesis
    by (simp add: create_photo_image_def parse_header_single single_color_map col_def)
qed

lemma alternate_pixel:
  assumes "i < 32"
  shows "(if even j then concat (replicate 16 ''. '') else concat (replicate 16 '' .'')) ! i =
         (if even (i + j) then CHR ''.'' else CHR '' '')"
proof -
  have a: "concat (replicate 16 ''. '') ! i = (if even i then CHR ''.'' else CHR '' '')"
    using assms by (intro nth_concat_pairs) simp
  have b: "concat (replicate 16 '' .'') ! i = (if even i then CHR '' '' else CHR ''.'')"
    using assms by (intro nth_concat_pairs) simp
  show ?thesis
  proof (cases "even j")
    case True
    then show ?thesis by (simp add: a)
  next
    case False
    then show ?thesis by (simp add: b)
  qed
qed

lemma alternate_row_length:
  "length (if even j then concat (replicate 16 ''. '') else concat (replicate 16 '' .'')) = 32"
  by (simp add: length_concat_pairs)

lemma alternate_row_loop:
  "row_loop ['' '' \<mapsto> c1, ''.'' \<mapsto> c2]
     (if even j then concat (replicate 16 ''. '') else concat (replicate 16 '' .'')) 1
     (py_range 32) [] =
   Inr (concat (map (\<lambda>x. (if even (x + int j) then c2 else c1) @ '' '') (py_range 32)))"
proof -
  let ?row = "if even j then concat (replicate 16 ''. '') else concat (replicate 16 '' .'')"
  have "\<forall>x\<in>set (py_range 32).
      ['' '' \<mapsto> c1, ''.'' \<mapsto> c2] (py_slice ?row (x * 1) ((x + 1) * 1)) =
        Some (if even (x + int j) then c2 else c1)"
  proof
    fix x assume "x \<in> set (py_range 32)"
    then obtain i where i: "x = int i" "i < 32" by (auto elim: in_py_rangeE)
    have "py_slice ?row (int i * 1) ((int i + 1) * 1) = [?row ! i]"
      using i(2) by (intro py_slice_one) (simp only: alternate_row_length)
    also have "\<dots> = [if even (i + j) then CHR ''.'' else CHR '' '']"
      by (simp only: alternate_pixel[OF i(2)])
    finally have "py_slice ?row (x * 1) ((x + 1) * 1) = [if even (i + j) then CHR ''.'' else CHR '' '']"
      by (simp only: i(1))
    moreover have "even (x + int j) = even (i + j)"
      unfolding i(1) by (simp only: of_nat_add[symmetric] even_of_nat_iff)
    ultimately show "['' '' \<mapsto> c1, ''.'' \<mapsto> c2] (py_slice ?row (x * 1) ((x + 1) * 1)) =
        Some (if even (x + int j) then c2 else c1)"
      by simp
  qed
  from row_loop_closed[OF this, of "[]"] show ?thesis by (simp only: append_Nil)
qed

lemma alternate_image:
  "create_photo_image p (AlternateXpm r g b r' g' b') =
     Inr \<lparr>img_master = p, img_width = 32, img_height = 32,
          img_puts = map (\<lambda>y. (''{'' @ py_strip (concat (map
            (\<lambda>x. (if even (x + y) then last (py_split (py_strip (''. c #'' @ r' @ g' @ b')))
                   else last (py_split (py_strip (''  c #'' @ r @ g @ b)))) @ '' '')
            (py_range 32))) @ ''}'', 0, y)) (py_range 32)\<rparr>"
proof -
  define c1 where "c1 = last (py_split (py_strip (''  c #'' @ r @ g @ b)))"
  define c2 where "c2 = last (py_split (py_strip (''. c #'' @ r' @ g' @ b')))"
  let ?rowf = "\<lambda>y::int. if even y then concat (replicate 16 ''. '') else concat (replicate 16 '' .'')"
  let ?strf = "\<lambda>y::int. concat (map (\<lambda>x. (if even (x + y) then c2 else c1) @ '' '') (py_range 32))"
  have "\<forall>y\<in>set (py_range 32).
      py_index (AlternateXpm r g b r' g' b') (y + 1 + 2) = Inr (?rowf y) \<and>
      row_loop ['' '' \<mapsto> c1, ''.'' \<mapsto> c2] (?rowf y) 1 (py_range 32) [] = Inr (?strf y)"
  proof
    fix y assume "y \<in> set (py_range 32)"
    then obtain i where i: "y = int i" "i < 32" by (auto elim: in_py_rangeE)
    have ev: "even y = even i" unfolding i(1) by simp
    show "py_index (AlternateXpm r g b r' g' b') (y + 1 + 2) = Inr (?rowf y) \<and>
      row_loop ['' '' \<mapsto> c1, ''.'' \<mapsto> c2] (?rowf y) 1 (py_range 32) [] = Inr (?strf y)"
      unfolding ev using alternate_row_index[OF i(2), of r g b r' g' b'] alternate_row_loop[of c1 c2 i]
      unfolding i(1) by (simp only: simp_thms)
  qed
  from image_loop_closed[OF this,
      of "\<lparr>img_master = p, img_width = 32, img_height = 32, img_puts = []\<rparr>",
      unfolded c1_def c2_def]
  show ?thesis
    by (simp add: create_photo_image_def parse_header_alternate alternate_color_map)
qed

subsection \<open>Symbols of the pixel maps\<close>

lemma int_lt32E:
  assumes "0 \<le> (y::int)" "y < 32"
  obtains i where "y = int i" "i < 32"
  using assms by (metis nat_less_iff of_nat_numeral nat_0_le)

lemma single_table_symbol: "table_symbol (SingleColorXpm r g b) 0 = Inr '' ''"
  using py_index_nat[of 1 "SingleColorXpm r g b"]
  by (simp add: table_symbol_def single_data py_index_0)

lemma alternate_table_symbol:
  "table_symbol (AlternateXpm r g b r' g' b') 0 = Inr '' ''"
  "table_symbol (AlternateXpm r g b r' g' b') 1 = Inr ''.''"
  using py_index_nat[of 1 "AlternateXpm r g b r' g' b'"] py_index_nat[of 2 "AlternateXpm r g b r' g' b'"]
  by (simp_all add: table_symbol_def alternate_data py_index_0)

lemma single_pixel_symbol:
  assumes "i < 32" "j < 32"
  shows "pixel_symbol (SingleColorXpm r g b) (int i) (int j) = Inr '' ''"
proof -
  have "py_slice (replicate 32 CHR '' '') (int j * 1) ((int j + 1) * 1) = [replicate 32 CHR '' '' ! j]"
    using assms(2) by (intro py_slice_one) simp
  also have "\<dots> = '' ''" using assms(2) by simp
  finally show ?thesis
    by (simp only: pixel_symbol_def parse_header_single single_row_index[OF assms(1)]
        sum.case prod.case)
qed

lemma alternate_pixel_symbol:
  assumes "i < 32" "j < 32"
  shows "pixel_symbol (AlternateXpm r g b r' g' b') (int i) (int j) =
    Inr (if even (i + j) then ''.'' else '' '')"
proof -
  let ?row = "if even i then concat (replicate 16 ''. '') else concat (replicate 16 '' .'')"
  have "py_slice ?row (int j * 1) ((int j + 1) * 1) = [?row ! j]"
    using assms(2) by (intro py_slice_one) (simp only: alternate_row_length)
  also have "\<dots> = [if even (j + i) then CHR ''.'' else CHR '' '']"
    by (simp only: alternate_pixel[OF assms(2)])
  also have "\<dots> = (if even (i + j) then ''.'' else '' '')"
    by (simp add: add.commute)
  finally show ?thesis
    by (simp only: pixel_symbol_def parse_header_alternate alternate_row_index[OF assms(1)]
        sum.case prod.case)
qed

subsection \<open>Claim C3: the checkerboard\<close>

text \<open>
  Claim C3, as amended. A pixel map of \<open>AlternateXpm\<close> declares a size of 32 by 32, and for every
  row and column below 32 the pixel uses the first symbol of the table (the space, bound to the
  first colour) exactly when row + column is odd, and the second symbol (the dot, bound to the
  second colour) exactly when row + column is even.
\<close>

theorem alternate_checkerboard:
  assumes "0 \<le> row" "row < 32" "0 \<le> col" "col < 32"
  shows "parse_header (AlternateXpm r1 g1 b1 r2 g2 b2) = Inr (32, 32, 2, 1) \<and>
    (pixel_symbol (AlternateXpm r1 g1 b1 r2 g2 b2) row col =
       table_symbol (AlternateXpm r1 g1 b1 r2 g2 b2) 0 \<longleftrightarrow> odd (row + col)) \<and>
    (pixel_symbol (AlternateXpm r1 g1 b1 r2 g2 b2) row col =
       table_symbol (AlternateXpm r1 g1 b1 r2 g2 b2) 1 \<longleftrightarrow> even (row + col))"
proof -
  from assms obtain i j where ij: "row = int i" "i < 32" "col = int j" "j < 32"
    by (auto elim!: int_lt32E)
  have ev: "even (row + col) = even (i + j)"
    unfolding ij(1,3) by (simp only: of_nat_add[symmetric] even_of_nat_iff)
  show ?thesis
    unfolding ev unfolding ij(1,3)
    by (simp add: parse_header_alternate alternate_table_symbol alternate_pixel_symbol[OF ij(2,4)])
qed

text \<open>The theorem at row 0, column 1 of the tile that alternates black and 7f grey.\<close>

theorem alternate_checkerboard_witness:
  "(0::int) \<le> 0 \<and> (0::int) < 32 \<and> (0::int) \<le> 1 \<and> (1::int) < 32 \<and> odd ((0::int) + 1) \<and>
   pixel_symbol (AlternateXpm ''00'' ''00'' ''00'' ''7f'' ''7f'' ''7f'') 0 1 =
     table_symbol (AlternateXpm ''00'' ''00'' ''00'' ''7f'' ''7f'' ''7f'') 0"
  using alternate_checkerboard[of 0 1 "''00''" "''00''" "''00''" "''7f''" "''7f''" "''7f''"]
  by simp

text \<open>
  Claim C3 as the specification states it puts the first symbol where row + column is even.
  At row 0, column 0 the sum is even and the pixel is the dot, the second symbol.
\<close>

theorem alternate_even_counterexample:
  "even ((0::int) + 0) \<and>
   pixel_symbol (AlternateXpm ''00'' ''00'' ''00'' ''7f'' ''7f'' ''7f'') 0 0 = Inr ''.'' \<and>
   table_symbol (AlternateXpm ''00'' ''00'' ''00'' ''7f'' ''7f'' ''7f'') 0 = Inr '' ''"
  using alternate_pixel_symbol[of 0 0 "''00''" "''00''" "''00''" "''7f''" "''7f''" "''7f''"]
  by (simp add: alternate_table_symbol)

subsection \<open>Colour lines without whitespace\<close>

lemma color_line_no_space:
  assumes "\<forall>c\<in>set t. \<not> is_space c"
  shows "last (py_split (py_strip (a # CHR '' '' # ''c #'' @ t))) = ''#'' @ t"
proof -
  have ns: "\<forall>c\<in>set (''#'' @ t). \<not> is_space c"
    using assms by (simp add: is_space_def)
  have sp: "is_space CHR '' ''" "\<not> is_space CHR ''c''" by (simp_all add: is_space_def)
  have tail: "py_strip (''c #'' @ t) = ''c #'' @ t"
    using ns by (intro py_strip_id) (auto simp: sp last_append)
  have split_tail: "split_from [] (''c #'' @ t) = [''c'', ''#'' @ t]"
    using split_from_no_space[OF ns, of "[]"] by (simp add: sp)
  have rear: "dropWhile is_space (rev (a # CHR '' '' # ''c #'' @ t)) = rev (a # CHR '' '' # ''c #'' @ t)"
    using ns by (cases t rule: rev_cases) (auto simp: is_space_def)
  show ?thesis
  proof (cases "is_space a")
    case True
    then have "py_strip (a # CHR '' '' # ''c #'' @ t) = py_strip (''c #'' @ t)"
      by (simp add: py_strip_def sp)
    then show ?thesis by (simp only: tail py_split_def split_tail) simp
  next
    case False
    have "dropWhile is_space (a # CHR '' '' # ''c #'' @ t) = a # CHR '' '' # ''c #'' @ t"
      using False by simp
    then have "py_strip (a # CHR '' '' # ''c #'' @ t) = a # CHR '' '' # ''c #'' @ t"
      unfolding py_strip_def by (simp only: rear rev_rev_ident)
    moreover have "split_from [] (a # CHR '' '' # ''c #'' @ t) = [a] # split_from [] (''c #'' @ t)"
      using False by (simp add: sp)
    ultimately show ?thesis by (simp only: py_split_def split_tail) simp
  qed
qed

lemma single_color_table:
  "color_table (SingleColorXpm r g b) =
     Inr ['' '' \<mapsto> last (py_split (py_strip (''  c #'' @ r @ g @ b)))]"
  by (simp only: color_table_def parse_header_single sum.case prod.case single_color_map)

lemma alternate_color_table:
  "color_table (AlternateXpm r g b r' g' b') =
     Inr ['' '' \<mapsto> last (py_split (py_strip (''  c #'' @ r @ g @ b))),
          ''.'' \<mapsto> last (py_split (py_strip (''. c #'' @ r' @ g' @ b')))]"
  by (simp only: color_table_def parse_header_alternate sum.case prod.case alternate_color_map)

subsection \<open>Claim C8: the uniform pixel map\<close>

text \<open>
  Claim C8. In a pixel map of \<open>SingleColorXpm\<close>, whose colour components contain no whitespace
  (they are two-digit hexadecimal strings), every pixel of the 32 rows and 32 columns uses the
  one symbol of the table, the table has that single entry, and the symbol maps to the
  configured colour \<open>#\<close> red green blue.
\<close>

theorem single_uniform:
  assumes "\<forall>c\<in>set (red @ green @ blue). \<not> is_space c"
    and "0 \<le> row" "row < 32" "0 \<le> col" "col < 32"
  shows "parse_header (SingleColorXpm red green blue) = Inr (32, 32, 1, 1) \<and>
    pixel_symbol (SingleColorXpm red green blue) row col = table_symbol (SingleColorXpm red green blue) 0 \<and>
    color_table (SingleColorXpm red green blue) = Inr ['' '' \<mapsto> ''#'' @ red @ green @ blue] \<and>
    pixel_color (SingleColorXpm red green blue) row col = Inr (''#'' @ red @ green @ blue)"
proof -
  from assms(2-5) obtain i j where ij: "row = int i" "i < 32" "col = int j" "j < 32"
    by (auto elim!: int_lt32E)
  have col: "last (py_split (py_strip (''  c #'' @ red @ green @ blue))) = ''#'' @ red @ green @ blue"
    using color_line_no_space[OF assms(1), of "CHR '' ''"] by simp
  have tab: "color_table (SingleColorXpm red green blue) = Inr ['' '' \<mapsto> ''#'' @ red @ green @ blue]"
    by (simp only: single_color_table col)
  have sym: "pixel_symbol (SingleColorXpm red green blue) row col = Inr '' ''"
    unfolding ij(1,3) by (rule single_pixel_symbol[OF ij(2,4)])
  have "pixel_color (SingleColorXpm red green blue) row col = Inr (''#'' @ red @ green @ blue)"
    by (simp add: pixel_color_def tab sym)
  with tab sym show ?thesis
    by (simp only: parse_header_single single_table_symbol simp_thms)
qed

text \<open>The theorem for the red tile of level 3f, at row 5 and column 31.\<close>

theorem single_uniform_witness:
  "\<not> list_ex is_space (''3f'' @ ''00'' @ ''00'') \<and> (0::int) \<le> 5 \<and> (5::int) < 32 \<and>
   (0::int) \<le> 31 \<and> (31::int) < 32 \<and>
   pixel_color (SingleColorXpm ''3f'' ''00'' ''00'') 5 31 = Inr ''#3f0000''"
proof -
  have h: "\<forall>c\<in>set (''3f'' @ ''00'' @ ''00''). \<not> is_space c"
    by (simp add: is_space_def)
  from single_uniform[OF h, of 5 31] h show ?thesis by (simp add: list_ex_iff)
qed

subsection \<open>The invariant on the pixel maps of the builders\<close>

lemma slice_in_dom:
  assumes "x \<in> set (py_range 32)" "length row = 32" "\<forall>c\<in>set row. [c] \<in> dom cm"
  shows "py_slice row (x * 1) ((x + 1) * 1) \<in> dom cm"
proof -
  from assms(1) obtain i where i: "x = int i" "i < 32" by (auto elim: in_py_rangeE)
  then have "py_slice row (x * 1) ((x + 1) * 1) = [row ! i]"
    using py_slice_one[of i row] assms(2) by simp
  moreover have "row ! i \<in> set row" using i assms(2) by simp
  ultimately show ?thesis using assms(3) by simp
qed

lemma single_consistent: "xpm_consistent (SingleColorXpm r g b)"
proof -
  define col where "col = last (py_split (py_strip (''  c #'' @ r @ g @ b)))"
  have rows: "drop (nat (1 + 1)) (SingleColorXpm r g b) = replicate 32 (replicate 32 CHR '' '')"
    by (simp add: single_data)
  have cm: "color_map_loop (SingleColorXpm r g b) (py_range 1) Map.empty = Inr ['' '' \<mapsto> col]"
    unfolding col_def by (rule single_color_map)
  have a: "int (length (replicate 32 (replicate 32 CHR '' ''))) = 32" by simp
  have b: "\<forall>row\<in>set (replicate 32 (replicate 32 CHR '' '')). int (length row) = 32 * 1"
    by simp
  have c: "int (card (dom ['' '' \<mapsto> col])) = 1" by simp
  have d: "\<forall>row\<in>set (replicate 32 (replicate 32 CHR '' '')). \<forall>x\<in>set (py_range 32).
      py_slice row (x * 1) ((x + 1) * 1) \<in> dom ['' '' \<mapsto> col]"
  proof (intro ballI)
    fix row x assume "row \<in> set (replicate 32 (replicate 32 CHR '' ''))" "x \<in> set (py_range 32)"
    then show "py_slice row (x * 1) ((x + 1) * 1) \<in> dom ['' '' \<mapsto> col]"
      by (intro slice_in_dom) auto
  qed
  show ?thesis
    unfolding xpm_consistent_def parse_header_single sum.case prod.case cm rows
    using a b c d by (simp only: simp_thms)
qed

lemma alternate_rows_set:
  "set (concat (replicate 16 [concat (replicate 16 ''. ''), concat (replicate 16 '' .'')])) =
     {concat (replicate 16 ''. ''), concat (replicate 16 '' .'')}"
  by (simp only: set_concat set_replicate_conv_if) simp

lemma alternate_consistent: "xpm_consistent (AlternateXpm r g b r' g' b')"
proof -
  define c1 where "c1 = last (py_split (py_strip (''  c #'' @ r @ g @ b)))"
  define c2 where "c2 = last (py_split (py_strip (''. c #'' @ r' @ g' @ b')))"
  let ?rows = "concat (replicate 16 [concat (replicate 16 ''. ''), concat (replicate 16 '' .'')])"
  have rows: "drop (nat (1 + 2)) (AlternateXpm r g b r' g' b') = ?rows"
    by (simp add: alternate_data)
  have cm: "color_map_loop (AlternateXpm r g b r' g' b') (py_range 2) Map.empty =
      Inr ['' '' \<mapsto> c1, ''.'' \<mapsto> c2]"
    unfolding c1_def c2_def by (rule alternate_color_map)
  have len: "length row = 32" if "row \<in> set ?rows" for row
    using that unfolding alternate_rows_set by (auto simp: length_concat_pairs)
  have chars: "\<forall>c\<in>set row. [c] \<in> dom ['' '' \<mapsto> c1, ''.'' \<mapsto> c2]" if "row \<in> set ?rows" for row
    using that unfolding alternate_rows_set by (auto simp: set_replicate_conv_if)
  have a: "int (length ?rows) = 32" by (simp only: length_concat_pairs)
  have b: "\<forall>row\<in>set ?rows. int (length row) = 32 * 1"
    using len by simp
  have c: "int (card (dom ['' '' \<mapsto> c1, ''.'' \<mapsto> c2])) = 2" by simp
  have d: "\<forall>row\<in>set ?rows. \<forall>x\<in>set (py_range 32).
      py_slice row (x * 1) ((x + 1) * 1) \<in> dom ['' '' \<mapsto> c1, ''.'' \<mapsto> c2]"
  proof (intro ballI)
    fix row x assume "row \<in> set ?rows" "x \<in> set (py_range 32)"
    then show "py_slice row (x * 1) ((x + 1) * 1) \<in> dom ['' '' \<mapsto> c1, ''.'' \<mapsto> c2]"
      using len chars by (intro slice_in_dom) blast+
  qed
  show ?thesis
    unfolding xpm_consistent_def parse_header_alternate sum.case prod.case cm rows
    using a b c d by (simp only: simp_thms)
qed

lemma length_py_range: "length (py_range n) = nat n"
  by (simp add: py_range_def)

subsection \<open>Claim C5: header, rows and symbol table agree\<close>

text \<open>
  Claim C5. Every pixel map of \<open>SingleColorXpm\<close> and of \<open>AlternateXpm\<close>, for any colour
  components, satisfies the invariant \<open>xpm_consistent\<close>: the declared height is the number of
  pixel rows, the declared width the length of every row, the declared number of colours the
  size of the symbol table, and the symbol of every pixel is in the table. So
  \<open>create_photo_image\<close> raises nothing on it and returns an image of 32 by 32 with 32 rows put.
\<close>

theorem builders_consistent:
  "xpm_consistent (SingleColorXpm red green blue) \<and>
   xpm_consistent (AlternateXpm red1 green1 blue1 red2 green2 blue2) \<and>
   (\<exists>img. create_photo_image parent (SingleColorXpm red green blue) = Inr img \<and>
      img_width img = 32 \<and> img_height img = 32 \<and> length (img_puts img) = 32) \<and>
   (\<exists>img. create_photo_image parent (AlternateXpm red1 green1 blue1 red2 green2 blue2) = Inr img \<and>
      img_width img = 32 \<and> img_height img = 32 \<and> length (img_puts img) = 32)"
  by (simp add: single_consistent alternate_consistent single_image alternate_image length_py_range)

text \<open>The theorem for a grey uniform tile and a black and grey checkerboard.\<close>

theorem builders_consistent_witness:
  "xpm_consistent (SingleColorXpm ''3f'' ''3f'' ''3f'') \<and>
   xpm_consistent (AlternateXpm ''00'' ''00'' ''00'' ''7f'' ''7f'' ''7f'') \<and>
   create_photo_image () (SingleColorXpm ''3f'' ''3f'' ''3f'') \<noteq> Inl KeyError \<and>
   create_photo_image () (AlternateXpm ''00'' ''00'' ''00'' ''7f'' ''7f'' ''7f'') \<noteq> Inl KeyError"
  using builders_consistent[of "''3f''" "''3f''" "''3f''" "''00''" "''00''" "''00''" "''7f''" "''7f''" "''7f''" "()"]
  by auto

subsection \<open>Rounding, powers and hexadecimal text\<close>

lemma py_round_of_int: "py_round (of_int n) = n"
  by (simp add: py_round_def)

lemma py_round_bounds:
  assumes "0 \<le> x" "x \<le> 255"
  shows "0 \<le> py_round x \<and> py_round x \<le> 255"
proof -
  have f0: "0 \<le> \<lfloor>x\<rfloor>" using assms(1) by simp
  have lower: "0 \<le> py_round x"
    using f0 by (simp add: py_round_def Let_def)
  have upper: "py_round x \<le> 255"
  proof (cases "x = 255")
    case True
    then show ?thesis using py_round_of_int[of 255] by simp
  next
    case False
    with assms(2) have "x < 255" by simp
    then have "\<lfloor>x\<rfloor> < 255" by (simp add: floor_less_iff)
    then show ?thesis by (simp add: py_round_def Let_def)
  qed
  from lower upper show ?thesis ..
qed

lemma level_pow_pos:
  assumes "0 < gamma"
  shows "level_pow level (1 / gamma) = Inr ((real level / 255) powr (1 / gamma))"
  using assms by (simp add: level_pow_def Let_def)

lemma corrected_level_pos:
  assumes "0 < gamma"
  shows "corrected_level gamma level = Inr (spec_corrected gamma level)"
  using assms by (simp add: corrected_level_def level_pow_pos spec_corrected_def)

lemma spec_corrected_bounds:
  assumes "0 < gamma" "level \<le> 255"
  shows "0 \<le> spec_corrected gamma level \<and> spec_corrected gamma level \<le> 255"
proof -
  have "(real level / 255) powr (1 / gamma) \<le> 1"
    using assms by (intro powr_le1) simp_all
  then have "(real level / 255) powr (1 / gamma) * 255 \<le> 255" by simp
  moreover have "0 \<le> (real level / 255) powr (1 / gamma) * 255" by simp
  ultimately show ?thesis unfolding spec_corrected_def by (rule py_round_bounds[rotated])
qed

lemma hex_digits_small: "n < 16 \<Longrightarrow> hex_digits n = [''0123456789abcdef'' ! n]"
  by (simp add: hex_digits.simps)

lemma hex_digits_two:
  assumes "16 \<le> n" "n < 256"
  shows "hex_digits n = [''0123456789abcdef'' ! (n div 16), ''0123456789abcdef'' ! (n mod 16)]"
proof -
  have "n div 16 < 16" using assms(2) by simp
  then have "hex_digits (n div 16) = [''0123456789abcdef'' ! (n div 16)]"
    by (rule hex_digits_small)
  then show ?thesis using assms(1) by (subst hex_digits.simps) simp
qed

lemma format_02x_byte:
  assumes "0 \<le> n" "n \<le> 255"
  shows "format_02x n =
    [''0123456789abcdef'' ! (nat n div 16), ''0123456789abcdef'' ! (nat n mod 16)]"
proof (cases "nat n < 16")
  case True
  then show ?thesis using assms(1) by (simp add: format_02x_def hex_digits_small)
next
  case False
  then have "16 \<le> nat n" "nat n < 256" using assms by simp_all
  from hex_digits_two[OF this] show ?thesis using assms(1) by (simp add: format_02x_def)
qed

lemma level_hex_pos:
  assumes "0 < gamma"
  shows "level_hex gamma level = Inr (format_02x (spec_corrected gamma level))"
  by (simp add: level_hex_def corrected_level_pos[OF assms])

lemma gamma_levels_pos:
  assumes "0 < gamma"
  shows "gamma_levels gamma =
    Inr (format_02x (spec_corrected gamma 0), format_02x (spec_corrected gamma 63),
         format_02x (spec_corrected gamma 127), format_02x (spec_corrected gamma 191),
         format_02x (spec_corrected gamma 255))"
  by (simp add: gamma_levels_def level_hex_pos[OF assms])

lemma gamma_levels_nonpos:
  assumes "gamma \<le> 0"
  shows "gamma_levels gamma = Inl ZeroDivisionError"
  using assms by (simp add: gamma_levels_def level_hex_def corrected_level_def level_pow_def)

lemma spec_corrected_0: "0 < gamma \<Longrightarrow> spec_corrected gamma 0 = 0"
  by (simp add: spec_corrected_def py_round_def)

lemma spec_corrected_255: "spec_corrected gamma 255 = 255"
  using py_round_of_int[of 255] by (simp add: spec_corrected_def)

lemma spec_corrected_gamma_1: "spec_corrected 1 level = int level"
  using py_round_of_int[of "int level"] by (simp add: spec_corrected_def)

lemma format_00: "format_02x 0 = ''00''"
  by (simp add: format_02x_def hex_digits.simps)
lemma format_3f: "format_02x 63 = ''3f''"
  by (simp add: format_02x_def hex_digits.simps)
lemma format_7f: "format_02x 127 = ''7f''"
  by (simp add: format_02x_def hex_digits.simps)
lemma format_bf: "format_02x 191 = ''bf''"
  by (simp add: format_02x_def hex_digits.simps)
lemma format_ff: "format_02x 255 = ''ff''"
  by (simp add: format_02x_def hex_digits.simps)

lemma gamma_levels_1: "gamma_levels 1 = Inr (''00'', ''3f'', ''7f'', ''bf'', ''ff'')"
  using gamma_levels_pos[of 1]
  by (simp add: spec_corrected_gamma_1 format_00 format_3f format_7f format_bf format_ff)

subsection \<open>The image dictionary and the placement loops\<close>

lemma create_images_ok:
  assumes "\<forall>(k, d)\<in>set xs. \<exists>img. create_photo_image self d = Inr img \<and>
      img_width img = 32 \<and> img_height img = 32"
  shows "\<exists>images. create_images self xs = Inr images \<and> map fst images = map fst xs \<and>
      (\<forall>(k, img)\<in>set images. img_width img = 32 \<and> img_height img = 32)"
  using assms
proof (induction xs)
  case Nil
  then show ?case by simp
next
  case (Cons x xs)
  obtain k d where x: "x = (k, d)" by (cases x)
  from Cons.prems x obtain img where img: "create_photo_image self d = Inr img"
    "img_width img = 32" "img_height img = 32" by auto
  from Cons.prems have "\<forall>(k, d)\<in>set xs. \<exists>img. create_photo_image self d = Inr img \<and>
      img_width img = 32 \<and> img_height img = 32" by simp
  from Cons.IH[OF this] obtain images where images: "create_images self xs = Inr images"
    "map fst images = map fst xs" "\<forall>(k, img)\<in>set images. img_width img = 32 \<and> img_height img = 32"
    by blast
  show ?case using img images by (simp add: x)
qed

lemma builder_image_ok:
  "\<exists>img. create_photo_image self (SingleColorXpm r g b) = Inr img \<and>
      img_width img = 32 \<and> img_height img = 32"
  "\<exists>img. create_photo_image self (AlternateXpm r g b r' g' b') = Inr img \<and>
      img_width img = 32 \<and> img_height img = 32"
  by (simp_all add: single_image alternate_image)

lemma chart_xpms_keys: "map fst (chart_xpms levels) = chart_keys"
  by (cases levels rule: chart_xpms.cases) (simp add: chart_keys_def)

lemma chart_images_ok:
  "\<exists>images. create_images self (chart_xpms levels) = Inr images \<and> map fst images = chart_keys \<and>
      (\<forall>(k, img)\<in>set images. img_width img = 32 \<and> img_height img = 32)"
proof -
  have "\<forall>(k, d)\<in>set (chart_xpms levels). \<exists>img. create_photo_image self d = Inr img \<and>
      img_width img = 32 \<and> img_height img = 32"
    by (cases levels rule: chart_xpms.cases) (simp add: builder_image_ok)
  from create_images_ok[OF this] show ?thesis by (simp only: chart_xpms_keys)
qed

lemma place_patterns_positions:
  assumes "\<forall>p\<in>set ps. color_name @ ''_'' @ fst p \<in> fst ` set images"
  shows "map item_position (place_patterns images side color_name ro co ps items) =
    map item_position items @
    map (\<lambda>p. ((fst (snd p) + co) * side, (snd (snd p) + ro) * side)) ps"
  using assms
proof (induction ps arbitrary: items)
  case Nil
  then show ?case by simp
next
  case (Cons p ps)
  obtain pattern_name col row where p: "p = (pattern_name, col, row)" by (cases p)
  define key where "key = color_name @ ''_'' @ pattern_name"
  from Cons.prems p have "key \<in> fst ` set images" by (simp add: key_def)
  then obtain img where img: "map_of images key = Some img"
    by (metis map_of_eq_None_iff not_Some_eq)
  from Cons.prems have rest: "\<forall>p\<in>set ps. color_name @ ''_'' @ fst p \<in> fst ` set images"
    by simp
  have step: "place_patterns images side color_name ro co (p # ps) items =
      place_patterns images side color_name ro co ps
        (items @ [\<lparr>item_x = (col + co) * side, item_y = (row + ro) * side,
                   item_image = img, item_anchor = ''nw''\<rparr>])"
    unfolding p place_patterns.simps key_def[symmetric] img by simp
  show ?case
    unfolding step Cons.IH[OF rest] by (simp add: p item_position_def)
qed

lemma place_patterns_images:
  assumes "\<forall>item\<in>set items. Q (item_image item)" "\<forall>entry\<in>set images. Q (snd entry)"
  shows "\<forall>item\<in>set (place_patterns images side color_name ro co ps items). Q (item_image item)"
  using assms(1)
proof (induction ps arbitrary: items)
  case Nil
  then show ?case by simp
next
  case (Cons p ps)
  obtain pattern_name col row where p: "p = (pattern_name, col, row)" by (cases p)
  define key where "key = color_name @ ''_'' @ pattern_name"
  show ?case
  proof (cases "map_of images key")
    case None
    have step: "place_patterns images side color_name ro co (p # ps) items =
        place_patterns images side color_name ro co ps items"
      unfolding p place_patterns.simps key_def[symmetric] None by simp
    show ?thesis unfolding step by (rule Cons.IH[OF Cons.prems])
  next
    case (Some img)
    then have "(key, img) \<in> set images" by (rule map_of_SomeD)
    with assms(2) have "Q img" by force
    with Cons.prems have q: "\<forall>item\<in>set (items @ [\<lparr>item_x = (col + co) * side,
        item_y = (row + ro) * side, item_image = img, item_anchor = ''nw''\<rparr>]). Q (item_image item)"
      by simp
    have step: "place_patterns images side color_name ro co (p # ps) items =
      place_patterns images side color_name ro co ps
        (items @ [\<lparr>item_x = (col + co) * side, item_y = (row + ro) * side,
                   item_image = img, item_anchor = ''nw''\<rparr>])"
      unfolding p place_patterns.simps key_def[symmetric] Some by simp
    show ?thesis unfolding step by (rule Cons.IH[OF q])
  qed
qed

lemma place_layout_positions:
  assumes "\<forall>l\<in>set ls. \<forall>p\<in>set patterns. fst l @ ''_'' @ fst p \<in> fst ` set images"
  shows "map item_position (place_layout images side ls items) =
    map item_position items @ concat (map (\<lambda>l.
      map (\<lambda>p. ((fst (snd p) + snd (snd l)) * side, (snd (snd p) + fst (snd l)) * side)) patterns) ls)"
  using assms
proof (induction ls arbitrary: items)
  case Nil
  then show ?case by simp
next
  case (Cons l ls)
  obtain color_name ro co where l: "l = (color_name, ro, co)" by (cases l)
  from Cons.prems l have here: "\<forall>p\<in>set patterns. color_name @ ''_'' @ fst p \<in> fst ` set images"
    by simp
  from Cons.prems have rest: "\<forall>l\<in>set ls. \<forall>p\<in>set patterns. fst l @ ''_'' @ fst p \<in> fst ` set images"
    by simp
  show ?case
    by (simp add: l Cons.IH[OF rest] place_patterns_positions[OF here])
qed

lemma place_layout_images:
  assumes "\<forall>item\<in>set items. Q (item_image item)" "\<forall>entry\<in>set images. Q (snd entry)"
  shows "\<forall>item\<in>set (place_layout images side ls items). Q (item_image item)"
  using assms(1)
proof (induction ls arbitrary: items)
  case Nil
  then show ?case by simp
next
  case (Cons l ls)
  obtain color_name ro co where l: "l = (color_name, ro, co)" by (cases l)
  have "\<forall>item\<in>set (place_patterns images side color_name ro co patterns items). Q (item_image item)"
    by (rule place_patterns_images[OF Cons.prems assms(2)])
  from Cons.IH[OF this] show ?case by (simp add: l)
qed

lemma layout_keys:
  "\<forall>l\<in>set layout. \<forall>p\<in>set patterns. fst l @ ''_'' @ fst p \<in> set chart_keys"
  by (simp add: layout_def patterns_def chart_keys_def)

lemma layout_positions:
  "concat (map (\<lambda>l. map (\<lambda>p. ((fst (snd p) + snd (snd l)) * 32, (snd (snd p) + fst (snd l)) * 32))
      patterns) layout) = grid_positions"
  unfolding grid_positions_def layout_def patterns_def by code_simp

subsection \<open>The grid of the chart\<close>

lemma grid_positions_length: "length grid_positions = 144"
  by (simp add: grid_positions_def)

lemma grid_positions_distinct: "distinct grid_positions"
proof -
  have "inj_on (\<lambda>k. (int (k mod 12) * 32, int (k div 12) * 32)) (set [0..<144])"
  proof (rule inj_onI)
    fix k k' :: nat
    assume "(int (k mod 12) * 32, int (k div 12) * 32) = (int (k' mod 12) * 32, int (k' div 12) * 32)"
    then have "k mod 12 = k' mod 12" "k div 12 = k' div 12" by simp_all
    then show "k = k'" by (metis div_mult_mod_eq)
  qed
  then show ?thesis unfolding grid_positions_def by (simp add: distinct_map)
qed

lemma grid_positions_set:
  "set grid_positions = (\<lambda>(i, j). (int i * 32, int j * 32)) ` ({0..<12} \<times> {0..<12})"
proof (rule set_eqI, rule iffI)
  fix q assume "q \<in> set grid_positions"
  then obtain k where k: "k < 144" "q = (int (k mod 12) * 32, int (k div 12) * 32)"
    by (auto simp: grid_positions_def)
  then have "k mod 12 < 12" "k div 12 < 12" by simp_all
  then have "(k mod 12, k div 12) \<in> {0..<12} \<times> {0..<12}" by simp
  then show "q \<in> (\<lambda>(i, j). (int i * 32, int j * 32)) ` ({0..<12} \<times> {0..<12})"
    unfolding k(2) by (rule rev_image_eqI) simp
next
  fix q assume "q \<in> (\<lambda>(i, j). (int i * 32, int j * 32)) ` ({0..<12} \<times> {0..<12})"
  then obtain i j where ij: "i < 12" "j < 12" "q = (int i * 32, int j * 32)" by auto
  define k where "k = j * 12 + i"
  have "k < 144" "k mod 12 = i" "k div 12 = j" using ij(1,2) by (simp_all add: k_def)
  then have "q = (\<lambda>k. (int (k mod 12) * 32, int (k div 12) * 32)) k" "k \<in> set [0..<144]"
    using ij(3) by simp_all
  then show "q \<in> set grid_positions" unfolding grid_positions_def by (simp only: set_map image_eqI)
qed

lemma GammaChart_nonpos: "gamma \<le> 0 \<Longrightarrow> GammaChart self parent gamma = Inl ZeroDivisionError"
  by (simp add: GammaChart_def gamma_levels_nonpos)

lemma GammaChart_pos:
  assumes "0 < gamma"
  shows "\<exists>chart. GammaChart self parent gamma = Inr chart \<and>
    chart_width chart = 384 \<and> chart_height chart = 384 \<and>
    map item_position (chart_items chart) = grid_positions \<and>
    length (chart_images chart) = 24 \<and>
    (\<forall>item\<in>set (chart_items chart).
       img_width (item_image item) = 32 \<and> img_height (item_image item) = 32)"
proof -
  obtain levels where levels: "gamma_levels gamma = Inr levels"
    using gamma_levels_pos[OF assms] by blast
  obtain images where images: "create_images self (chart_xpms levels) = Inr images"
    "map fst images = chart_keys"
    "\<forall>(k, img)\<in>set images. img_width img = 32 \<and> img_height img = 32"
    using chart_images_ok[of self levels] by blast
  have keys: "fst ` set images = set chart_keys"
    using images(2) by (metis set_map)
  have present: "\<forall>l\<in>set layout. \<forall>p\<in>set patterns. fst l @ ''_'' @ fst p \<in> fst ` set images"
    unfolding keys by (rule layout_keys)
  have pos: "map item_position (place_layout images 32 layout []) = grid_positions"
    using place_layout_positions[OF present, of 32 "[]"] by (simp only: layout_positions) simp
  have sizes: "\<forall>entry\<in>set images. img_width (snd entry) = 32 \<and> img_height (snd entry) = 32"
    using images(3) by auto
  have imgs: "\<forall>item\<in>set (place_layout images 32 layout []).
      img_width (item_image item) = 32 \<and> img_height (item_image item) = 32"
    by (rule place_layout_images[OF _ sizes]) simp
  have len: "length images = 24"
    using arg_cong[OF images(2), of length] by (simp add: chart_keys_def)
  have "GammaChart self parent gamma =
      Inr \<lparr>chart_parent = parent, chart_width = 384, chart_height = 384,
           chart_images = map snd images, chart_items = place_layout images 32 layout []\<rparr>"
    by (simp add: GammaChart_def levels images(1) Xpm_size_def)
  then show ?thesis using pos imgs len by simp
qed

subsection \<open>Claim C1: the placements fill the grid\<close>

text \<open>
  Claim C1, as amended. For every positive gamma the construction of a chart returns, on a
  canvas of 384 by 384, exactly 144 placements of 32 by 32 tiles (36 patterns for each of the
  4 sections): no two at the same position, and the positions are exactly the cells of the
  12 by 12 grid with a step of 32.
\<close>

theorem chart_placements:
  assumes "0 < gamma"
  shows "\<exists>chart. GammaChart self parent gamma = Inr chart \<and>
    chart_width chart = 12 * 32 \<and> chart_height chart = 12 * 32 \<and>
    length (chart_items chart) = 144 \<and>
    distinct (map item_position (chart_items chart)) \<and>
    set (map item_position (chart_items chart)) =
      (\<lambda>(i, j). (int i * 32, int j * 32)) ` ({0..<12} \<times> {0..<12}) \<and>
    (\<forall>item\<in>set (chart_items chart).
       img_width (item_image item) = 32 \<and> img_height (item_image item) = 32)"
proof -
  from GammaChart_pos[OF assms, of self parent] obtain chart where
    chart: "GammaChart self parent gamma = Inr chart"
      "chart_width chart = 384" "chart_height chart = 384"
      "map item_position (chart_items chart) = grid_positions"
      "\<forall>item\<in>set (chart_items chart).
         img_width (item_image item) = 32 \<and> img_height (item_image item) = 32"
    by blast
  have "length (chart_items chart) = 144"
    using arg_cong[OF chart(4), of length] by (simp add: grid_positions_length)
  moreover have "distinct (map item_position (chart_items chart))"
    unfolding chart(4) by (rule grid_positions_distinct)
  moreover have "set (map item_position (chart_items chart)) =
      (\<lambda>(i, j). (int i * 32, int j * 32)) ` ({0..<12} \<times> {0..<12})"
    unfolding chart(4) by (rule grid_positions_set)
  ultimately show ?thesis using chart(1,2,3,5) by (intro exI[of _ chart]) simp
qed

text \<open>The theorem at gamma 2.2.\<close>

theorem chart_placements_witness:
  "(0::real) < 2.2 \<and> placement_count (GammaChart () () 2.2) = Inr 144"
proof -
  have h: "(0::real) < 2.2" by simp
  from chart_placements[OF h, of "()" "()"] h show ?thesis
    by (auto simp: placement_count_def)
qed

text \<open>
  Claim C1 as the specification states it counts 96 placements for every gamma. At gamma 1
  there are 144, and at gamma 0 the construction raises before anything is placed.
\<close>

theorem chart_placements_counterexample:
  "placement_count (GammaChart () () 1) = Inr 144 \<and>
   placement_count (GammaChart () () 1) \<noteq> Inr 96 \<and>
   placement_count (GammaChart () () 0) = Inl ZeroDivisionError"
proof -
  have "placement_count (GammaChart () () 1) = Inr 144"
    using GammaChart_pos[of 1 "()" "()"] arg_cong[of _ grid_positions length]
    by (auto simp: placement_count_def grid_positions_length dest!: arg_cong[of _ grid_positions length])
  then show ?thesis by (simp add: GammaChart_nonpos placement_count_def)
qed

subsection \<open>Claim C6: gamma 1 is the identity\<close>

text \<open>
  Claim C6. At gamma 1 the corrected level of each of 0, 63, 127, 191 and 255 is the level
  itself, and the chart gets the texts 00, 3f, 7f, bf and ff.
\<close>

theorem gamma_one_identity:
  "map (corrected_level 1) [0, 63, 127, 191, 255] = map Inr [0, 63, 127, 191, 255] \<and>
   gamma_levels 1 = Inr (''00'', ''3f'', ''7f'', ''bf'', ''ff'')"
  using corrected_level_pos[of 1] by (simp add: spec_corrected_gamma_1 gamma_levels_1)

subsection \<open>Claim C7: the corrected level is a byte\<close>

text \<open>
  Claim C7. For gamma among 1.0, 1.8, 2.0 and 2.2 and a level among 0, 63, 127, 191 and 255
  the corrected level is computed and lies between 0 and 255, and its text has exactly two
  characters.
\<close>

theorem corrected_level_range:
  assumes "gamma \<in> {1, 1.8, 2, 2.2}" "level \<in> {0, 63, 127, 191, 255}"
  shows "\<exists>n. corrected_level gamma level = Inr n \<and> 0 \<le> n \<and> n \<le> 255 \<and>
    length (format_02x n) = 2"
proof -
  from assms(1) have g: "0 < gamma" by auto
  from assms(2) have "level \<le> 255" by auto
  from spec_corrected_bounds[OF g this]
  have b: "0 \<le> spec_corrected gamma level" "spec_corrected gamma level \<le> 255" by simp_all
  from format_02x_byte[OF b] have "length (format_02x (spec_corrected gamma level)) = 2" by simp
  with b corrected_level_pos[OF g] show ?thesis by simp
qed

text \<open>The theorem at gamma 1.8 and level 191.\<close>

theorem corrected_level_range_witness:
  "(1.8::real) \<in> {1, 1.8, 2, 2.2} \<and> (191::nat) \<in> {0, 63, 127, 191, 255} \<and>
   corrected_level 1.8 191 \<noteq> Inl ZeroDivisionError"
proof -
  have h: "(1.8::real) \<in> {1, 1.8, 2, 2.2}" "(191::nat) \<in> {0, 63, 127, 191, 255}" by simp_all
  from corrected_level_range[OF h] h show ?thesis by auto
qed

subsection \<open>Claim C10: black and white are fixed\<close>

text \<open>
  Claim C10. For gamma among 1.0, 1.8, 2.0 and 2.2 the text of the corrected 0% level is 00
  and the text of the corrected 100% level is ff; they are the first and the last of the five
  levels of the chart.
\<close>

theorem black_white_fixed:
  assumes "gamma \<in> {1, 1.8, 2, 2.2}"
  shows "level_hex gamma 0 = Inr ''00'' \<and> level_hex gamma 255 = Inr ''ff'' \<and>
    (\<exists>v025 v050 v075. gamma_levels gamma = Inr (''00'', v025, v050, v075, ''ff''))"
proof -
  from assms have g: "0 < gamma" by auto
  show ?thesis
    by (simp add: level_hex_pos[OF g] gamma_levels_pos[OF g] spec_corrected_0[OF g]
        spec_corrected_255 format_00 format_ff)
qed

text \<open>The theorem at gamma 2.2.\<close>

theorem black_white_fixed_witness:
  "(2.2::real) \<in> {1, 1.8, 2, 2.2} \<and> level_hex 2.2 0 = Inr ''00'' \<and> level_hex 2.2 255 = Inr ''ff''"
proof -
  have h: "(2.2::real) \<in> {1, 1.8, 2, 2.2}" by simp
  from black_white_fixed[OF h] h show ?thesis by simp
qed

subsection \<open>The master of an image\<close>

lemma image_loop_master:
  "image_loop d cm w n cpp ys (img\<lparr>img_master := m\<rparr>) =
     map_sum id (\<lambda>i. i\<lparr>img_master := m\<rparr>) (image_loop d cm w n cpp ys img)"
proof (induction ys arbitrary: img)
  case Nil
  show ?case by simp
next
  case (Cons y ys)
  show ?case
  proof (cases "py_index d (y + 1 + n)")
    case (Inl e)
    then show ?thesis by simp
  next
    case (Inr pixel_row)
    note row = this
    show ?thesis
    proof (cases "row_loop cm pixel_row cpp (py_range w) []")
      case (Inl e)
      with row show ?thesis by simp
    next
      case (Inr row_str)
      define entry where "entry = (''{'' @ py_strip row_str @ ''}'', 0::int, y)"
      have upd: "(img\<lparr>img_master := m\<rparr>)\<lparr>img_puts := img_puts (img\<lparr>img_master := m\<rparr>) @ [entry]\<rparr> =
            (img\<lparr>img_puts := img_puts img @ [entry]\<rparr>)\<lparr>img_master := m\<rparr>"
        by simp
      have "image_loop d cm w n cpp (y # ys) (img\<lparr>img_master := m\<rparr>) =
          image_loop d cm w n cpp ys
            ((img\<lparr>img_master := m\<rparr>)\<lparr>img_puts := img_puts (img\<lparr>img_master := m\<rparr>) @ [entry]\<rparr>)"
        by (simp only: image_loop.simps row Inr sum.case entry_def)
      also have "\<dots> = image_loop d cm w n cpp ys
            ((img\<lparr>img_puts := img_puts img @ [entry]\<rparr>)\<lparr>img_master := m\<rparr>)"
        by (simp only: upd)
      also have "\<dots> = map_sum id (\<lambda>i. i\<lparr>img_master := m\<rparr>)
            (image_loop d cm w n cpp ys (img\<lparr>img_puts := img_puts img @ [entry]\<rparr>))"
        by (rule Cons.IH)
      also have "\<dots> = map_sum id (\<lambda>i. i\<lparr>img_master := m\<rparr>)
            (image_loop d cm w n cpp (y # ys) img)"
        by (simp only: image_loop.simps row Inr sum.case entry_def)
      finally show ?thesis .
    qed
  qed
qed

lemma create_photo_image_master:
  "create_photo_image p d = map_sum id (\<lambda>i. i\<lparr>img_master := p\<rparr>) (create_photo_image q d)"
proof (cases "parse_header d")
  case (Inl e)
  then show ?thesis by (simp add: create_photo_image_def)
next
  case (Inr hdr)
  obtain w h n cpp where hdr: "hdr = (w, h, n, cpp)" by (cases hdr)
  show ?thesis
  proof (cases "color_map_loop d (py_range n) Map.empty")
    case (Inl e)
    with Inr hdr show ?thesis by (simp add: create_photo_image_def)
  next
    case cm: (Inr color_map)
    have loop: "image_loop d color_map w n cpp (py_range h)
          \<lparr>img_master = p, img_width = w, img_height = h, img_puts = []\<rparr> =
        map_sum id (\<lambda>i. i\<lparr>img_master := p\<rparr>)
          (image_loop d color_map w n cpp (py_range h)
            \<lparr>img_master = q, img_width = w, img_height = h, img_puts = []\<rparr>)"
      using image_loop_master[where img = "\<lparr>img_master = q, img_width = w, img_height = h,
          img_puts = []\<rparr>" and m = p and d = d and cm = color_map and w = w and n = n
          and cpp = cpp and ys = "py_range h"]
      by simp
    show ?thesis
      by (simp add: create_photo_image_def Inr hdr cm loop)
  qed
qed

lemma create_images_master:
  "create_images p xs =
     map_sum id (map (\<lambda>entry. (fst entry, (snd entry)\<lparr>img_master := p\<rparr>))) (create_images q xs)"
proof (induction xs)
  case Nil
  show ?case by simp
next
  case (Cons x xs)
  obtain key d where x: "x = (key, d)" by (cases x)
  show ?case
  proof (cases "create_photo_image q d")
    case (Inl e)
    then show ?thesis using create_photo_image_master[where p = p and q = q and d = d] by (simp add: x)
  next
    case (Inr img)
    then have here: "create_photo_image p d = Inr (img\<lparr>img_master := p\<rparr>)"
      using create_photo_image_master[where p = p and q = q and d = d] by simp
    show ?thesis
    proof (cases "create_images q xs")
      case (Inl e)
      with Inr here Cons.IH show ?thesis by (simp add: x)
    next
      case rest: (Inr images)
      with Inr here Cons.IH show ?thesis by (simp add: x)
    qed
  qed
qed

lemma map_of_master:
  "map_of (map (\<lambda>entry. (fst entry, f (snd entry))) images) key = map_option f (map_of images key)"
  by (induction images) auto

lemma place_patterns_master:
  "place_patterns (map (\<lambda>entry. (fst entry, f (snd entry))) images) side color_name ro co ps
     (map (\<lambda>item. item\<lparr>item_image := f (item_image item)\<rparr>) items) =
   map (\<lambda>item. item\<lparr>item_image := f (item_image item)\<rparr>)
     (place_patterns images side color_name ro co ps items)"
proof (induction ps arbitrary: items)
  case Nil
  show ?case by simp
next
  case (Cons p ps)
  obtain pattern_name col row where p: "p = (pattern_name, col, row)" by (cases p)
  define key where "key = color_name @ ''_'' @ pattern_name"
  show ?case
  proof (cases "map_of images key")
    case None
    then have "map_of (map (\<lambda>entry. (fst entry, f (snd entry))) images) key = None"
      by (simp add: map_of_master)
    with None show ?thesis
      unfolding p place_patterns.simps key_def[symmetric] by (simp add: Cons.IH)
  next
    case (Some img)
    then have mapped: "map_of (map (\<lambda>entry. (fst entry, f (snd entry))) images) key = Some (f img)"
      by (simp add: map_of_master)
    have "map (\<lambda>item. item\<lparr>item_image := f (item_image item)\<rparr>) items @
        [\<lparr>item_x = (col + co) * side, item_y = (row + ro) * side,
          item_image = f img, item_anchor = ''nw''\<rparr>] =
      map (\<lambda>item. item\<lparr>item_image := f (item_image item)\<rparr>)
        (items @ [\<lparr>item_x = (col + co) * side, item_y = (row + ro) * side,
          item_image = img, item_anchor = ''nw''\<rparr>])"
      by simp
    with Some mapped show ?thesis
      unfolding p place_patterns.simps key_def[symmetric]
      by (simp only: option.case Cons.IH)
  qed
qed

lemma place_layout_master:
  "place_layout (map (\<lambda>entry. (fst entry, f (snd entry))) images) side ls
     (map (\<lambda>item. item\<lparr>item_image := f (item_image item)\<rparr>) items) =
   map (\<lambda>item. item\<lparr>item_image := f (item_image item)\<rparr>) (place_layout images side ls items)"
proof (induction ls arbitrary: items)
  case Nil
  show ?case by simp
next
  case (Cons l ls)
  obtain color_name ro co where l: "l = (color_name, ro, co)" by (cases l)
  show ?case by (simp add: l place_patterns_master Cons.IH)
qed

lemma image_pixels_master: "image_pixels (img\<lparr>img_master := m\<rparr>) = image_pixels img"
  by (simp add: image_pixels_def)

subsection \<open>Claim C9: the chart depends on gamma alone\<close>

text \<open>
  Claim C9. Two constructions of a chart with the same gamma, for any two widgets and any two
  parents, either raise the same error or give charts of the same content: the same size, the
  same pixels in every image (the colours of the corrected levels in the rows of the pixel
  maps), and the same positions and pixels of the placed tiles, in the same order.
\<close>

theorem chart_deterministic:
  "map_sum id chart_content (GammaChart (self1 :: 'w) parent1 gamma) =
   map_sum id chart_content (GammaChart (self2 :: 'w) parent2 gamma)"
proof (cases "gamma_levels gamma")
  case (Inl e)
  then show ?thesis by (simp add: GammaChart_def)
next
  case (Inr levels)
  note lv = this
  let ?f = "\<lambda>img. img\<lparr>img_master := self1\<rparr>"
  show ?thesis
  proof (cases "create_images self2 (chart_xpms levels)")
    case (Inl e)
    then have "create_images self1 (chart_xpms levels) = Inl e"
      using create_images_master[where p = self1 and q = self2 and xs = "chart_xpms levels"] by simp
    with Inl lv show ?thesis by (simp add: GammaChart_def)
  next
    case (Inr images)
    then have one: "create_images self1 (chart_xpms levels) =
        Inr (map (\<lambda>entry. (fst entry, ?f (snd entry))) images)"
      using create_images_master[where p = self1 and q = self2 and xs = "chart_xpms levels"] by simp
    have items: "place_layout (map (\<lambda>entry. (fst entry, ?f (snd entry))) images) side layout [] =
        map (\<lambda>item. item\<lparr>item_image := ?f (item_image item)\<rparr>)
          (place_layout images side layout [])" for side
      using place_layout_master[where f = ?f and images = images and side = side
          and ls = layout and items = "[]"] by simp
    show ?thesis
      by (simp add: GammaChart_def Let_def lv Inr one items chart_content_def
          image_pixels_master item_position_def comp_def)
  qed
qed

text \<open>The theorem for two pairs of widgets at gamma 2.2.\<close>

theorem chart_deterministic_witness:
  "map_sum id chart_content (GammaChart ''chart1'' ''notebook1'' 2.2) =
   map_sum id chart_content (GammaChart ''chart2'' ''notebook2'' 2.2)"
  by (rule chart_deterministic)

subsection \<open>Colours of the tiles at gamma 1\<close>

lemma single_table_color:
  assumes "\<forall>c\<in>set (r @ g @ b). \<not> is_space c"
  shows "table_color (SingleColorXpm r g b) '' '' = Inr (''#'' @ r @ g @ b)"
proof -
  have "last (py_split (py_strip (''  c #'' @ r @ g @ b))) = ''#'' @ r @ g @ b"
    using color_line_no_space[OF assms, of "CHR '' ''"] by simp
  then show ?thesis by (simp add: table_color_def single_color_table)
qed

lemma alternate_table_color:
  assumes "\<forall>c\<in>set (r @ g @ b). \<not> is_space c" "\<forall>c\<in>set (r' @ g' @ b'). \<not> is_space c"
  shows "table_color (AlternateXpm r g b r' g' b') '' '' = Inr (''#'' @ r @ g @ b)"
    and "table_color (AlternateXpm r g b r' g' b') ''.'' = Inr (''#'' @ r' @ g' @ b')"
proof -
  have 1: "last (py_split (py_strip (''  c #'' @ r @ g @ b))) = ''#'' @ r @ g @ b"
    using color_line_no_space[OF assms(1), of "CHR '' ''"] by simp
  have 2: "last (py_split (py_strip (''. c #'' @ r' @ g' @ b'))) = ''#'' @ r' @ g' @ b'"
    using color_line_no_space[OF assms(2), of "CHR ''.''"] by simp
  show "table_color (AlternateXpm r g b r' g' b') '' '' = Inr (''#'' @ r @ g @ b)"
    using 1 by (simp add: table_color_def alternate_color_table)
  show "table_color (AlternateXpm r g b r' g' b') ''.'' = Inr (''#'' @ r' @ g' @ b')"
    using 2 by (simp add: table_color_def alternate_color_table)
qed

lemma hex_levels_no_space:
  "\<forall>c\<in>set (r @ g @ b). \<not> is_space c"
  if "r \<in> {''00'', ''3f'', ''7f'', ''bf'', ''ff''}" "g \<in> {''00'', ''3f'', ''7f'', ''bf'', ''ff''}"
    "b \<in> {''00'', ''3f'', ''7f'', ''bf'', ''ff''}"
  using that by (auto simp: is_space_def)

lemma level_single_color:
  assumes "r \<in> {''00'', ''3f'', ''7f'', ''bf'', ''ff''}" "g \<in> {''00'', ''3f'', ''7f'', ''bf'', ''ff''}"
    "b \<in> {''00'', ''3f'', ''7f'', ''bf'', ''ff''}"
  shows "table_color (SingleColorXpm r g b) '' '' = Inr (''#'' @ r @ g @ b)"
  by (rule single_table_color[OF hex_levels_no_space[OF assms]])

lemma level_alternate_color:
  assumes "r \<in> {''00'', ''3f'', ''7f'', ''bf'', ''ff''}" "g \<in> {''00'', ''3f'', ''7f'', ''bf'', ''ff''}"
    "b \<in> {''00'', ''3f'', ''7f'', ''bf'', ''ff''}"
    "r' \<in> {''00'', ''3f'', ''7f'', ''bf'', ''ff''}" "g' \<in> {''00'', ''3f'', ''7f'', ''bf'', ''ff''}"
    "b' \<in> {''00'', ''3f'', ''7f'', ''bf'', ''ff''}"
  shows "table_color (AlternateXpm r g b r' g' b') '' '' = Inr (''#'' @ r @ g @ b)"
    and "table_color (AlternateXpm r g b r' g' b') ''.'' = Inr (''#'' @ r' @ g' @ b')"
  using alternate_table_color[OF hex_levels_no_space[OF assms(1-3)] hex_levels_no_space[OF assms(4-6)]]
  by simp_all

lemma mean_values:
  "mean_color ''#000000'' ''#7f7f7f'' ''#3f3f3f''"
  "mean_color ''#000000'' ''#ffffff'' ''#7f7f7f''"
  "mean_color ''#7f7f7f'' ''#ffffff'' ''#bfbfbf''"
  "mean_color ''#000000'' ''#7f0000'' ''#3f0000''"
  "mean_color ''#000000'' ''#ff0000'' ''#7f0000''"
  "mean_color ''#7f0000'' ''#ff0000'' ''#bf0000''"
  "mean_color ''#000000'' ''#007f00'' ''#003f00''"
  "mean_color ''#000000'' ''#00ff00'' ''#007f00''"
  "mean_color ''#007f00'' ''#00ff00'' ''#00bf00''"
  "mean_color ''#000000'' ''#00007f'' ''#00003f''"
  "mean_color ''#000000'' ''#0000ff'' ''#00007f''"
  "mean_color ''#00007f'' ''#0000ff'' ''#0000bf''"
  by (simp_all add: mean_color_def channel_values_def hex_val_def)

subsection \<open>Claim C4: two-tone and single-tone tiles at gamma 1\<close>

text \<open>
  Claim C4, as amended. At gamma 1 the levels are 00, 3f, 7f, bf and ff, and for each of the
  four sections and each of the brightness levels 25%, 50% and 75% the colour of the
  single-tone tile is, in every channel, the mean rounded down of the two colours that
  alternate in the two-tone tile: 3f between 00 and 7f, 7f between 00 and ff, bf between 7f
  and ff.
\<close>

theorem gamma_one_tile_means:
  "gamma_levels 1 = Inr (''00'', ''3f'', ''7f'', ''bf'', ''ff'') \<and>
   list_all (\<lambda>color_name. list_all (\<lambda>level.
       tile_mean (''00'', ''3f'', ''7f'', ''bf'', ''ff'')
         (color_name @ ''_a'' @ level) (color_name @ ''_s'' @ level))
     [''025'', ''050'', ''075'']) [''all'', ''red'', ''green'', ''blue'']"
  by (simp add: gamma_levels_1 tile_mean_def tile_xpm_def level_single_color
      level_alternate_color mean_values)

text \<open>
  Claim C4 as the specification states it makes the two tiles of a brightness level render
  identical colours at gamma 1. The grey tiles of 25% do not: the top left pixel of the
  two-tone tile is 7f grey, that of the single-tone tile is 3f grey.
\<close>

theorem gamma_one_tiles_counterexample:
  "gamma_levels 1 = Inr (''00'', ''3f'', ''7f'', ''bf'', ''ff'') \<and>
   tile_xpm (''00'', ''3f'', ''7f'', ''bf'', ''ff'') ''all_a025'' =
     Some (AlternateXpm ''00'' ''00'' ''00'' ''7f'' ''7f'' ''7f'') \<and>
   tile_xpm (''00'', ''3f'', ''7f'', ''bf'', ''ff'') ''all_s025'' =
     Some (SingleColorXpm ''3f'' ''3f'' ''3f'') \<and>
   pixel_color (AlternateXpm ''00'' ''00'' ''00'' ''7f'' ''7f'' ''7f'') 0 0 = Inr ''#7f7f7f'' \<and>
   pixel_color (SingleColorXpm ''3f'' ''3f'' ''3f'') 0 0 = Inr ''#3f3f3f''"
proof -
  have a: "pixel_symbol (AlternateXpm ''00'' ''00'' ''00'' ''7f'' ''7f'' ''7f'') 0 0 = Inr ''.''"
    using alternate_pixel_symbol[of 0 0 "''00''" "''00''" "''00''" "''7f''" "''7f''" "''7f''"]
    by simp
  have s: "pixel_symbol (SingleColorXpm ''3f'' ''3f'' ''3f'') 0 0 = Inr '' ''"
    using single_pixel_symbol[of 0 0 "''3f''" "''3f''" "''3f''"] by simp
  have ta: "last (py_split (py_strip (''. c #'' @ ''7f'' @ ''7f'' @ ''7f''))) = ''#7f7f7f''"
    using color_line_no_space[of "''7f7f7f''" "CHR ''.''"] by (simp add: is_space_def)
  have ts: "last (py_split (py_strip (''  c #'' @ ''3f'' @ ''3f'' @ ''3f''))) = ''#3f3f3f''"
    using color_line_no_space[of "''3f3f3f''" "CHR '' ''"] by (simp add: is_space_def)
  have "pixel_color (AlternateXpm ''00'' ''00'' ''00'' ''7f'' ''7f'' ''7f'') 0 0 = Inr ''#7f7f7f''"
    unfolding pixel_color_def alternate_color_table a ta by simp
  moreover have "pixel_color (SingleColorXpm ''3f'' ''3f'' ''3f'') 0 0 = Inr ''#3f3f3f''"
    unfolding pixel_color_def single_color_table s ts by simp
  ultimately show ?thesis by (simp add: gamma_levels_1 tile_xpm_def)
qed

end
